theory Spec2Isabelle
  imports Main "HOL-Library.Monad_Syntax" "HOL-Library.Sublist"
begin

section \<open>Data model\<close>

subsection \<open>JSON values\<close>

text \<open>
  A request body after \<open>JSON.parse\<close>, and the bodies built by \<open>c.json\<close>. The payload of a
  number plays no role in this service (the schema accepts none).
\<close>

datatype json =
    JNull
  | JBool bool
  | JNumber int
  | JString string
  | JArray "json list"
  | JObject "(string \<times> json) list"

text \<open>Reading a key of a parsed object: when a key is repeated in the text, \<open>JSON.parse\<close>
  keeps the last value. A key that is not there reads as \<open>undefined\<close>, here \<open>None\<close>.\<close>

definition get_field :: "(string \<times> json) list \<Rightarrow> string \<Rightarrow> json option" where
  "get_field kvs k = map_of (rev kvs) k"

text \<open>\<open>JSON.stringify\<close> leaves out the keys of an object whose value is \<open>undefined\<close>.\<close>

definition json_object :: "(string \<times> json option) list \<Rightarrow> json" where
  "json_object kvs =
     JObject (concat (map (\<lambda>(k, v). case v of None \<Rightarrow> [] | Some j \<Rightarrow> [(k, j)]) kvs))"

subsection \<open>The validated contact payload\<close>

text \<open>The type inferred from the schema of \<open>POST /ios-contact\<close>: an optional field is an
  \<open>option\<close>, \<open>None\<close> being \<open>undefined\<close>.\<close>

record email_entry =
  email :: string
  email_label :: string

record address =
  city :: "string option"
  street :: "string option"
  country :: "string option"
  zip :: "string option"
  state :: "string option"
  address_label :: "string option"

record phone =
  phone_label :: string
  number :: string

record contact =
  firstName :: "string option"
  organization :: "string option"
  lastName :: string
  emails :: "email_entry list option"
  addresses :: "address option list option"
  phones :: "phone list option"
  note_text :: "string option"
  website :: "string option"
  jobTitle :: "string option"
  source :: string

subsection \<open>Errors, responses, requests\<close>

text \<open>
  What can be thrown inside the request pipeline. \<open>NotionClientError code message\<close> stands for
  the errors that \<open>isNotionClientError\<close> recognises; \<open>TypeError\<close> is what JavaScript throws
  when a destructuring pattern meets \<open>undefined\<close>; \<open>OtherError\<close> is anything else (a network
  failure, for instance).
\<close>

datatype error =
    NotionClientError string string
  | TypeError string
  | OtherError string

text \<open>The value of \<open>APIErrorCode.Unauthorized\<close> in the Notion client.\<close>

definition APIErrorCode_Unauthorized :: string where
  "APIErrorCode_Unauthorized = ''unauthorized''"

text \<open>A response body: JSON (\<open>c.json\<close>), text (\<open>c.text\<close>), or the serialised result of a
  failed \<open>safeParse\<close>, whose content is made by the validation library.\<close>

datatype body =
    JsonBody json
  | TextBody string
  | ZodErrorBody

record response =
  status :: nat
  body :: body

record request =
  http_method :: string
  pathname :: string
  authorization :: "string option"
  payload :: json

record env =
  NOTION_TOKEN :: string
  PASSWORD :: string

subsection \<open>The external store\<close>

type_synonym page_id = string
type_synonym database_id = string

datatype filter =
    TitleEquals string string
  | RichTextEquals string string
  | And "filter list"

text \<open>A typed property value. A title and a rich text are lists of text chunks (their
  contents); a relation lists the identifiers it points to, where \<open>None\<close> is an \<open>undefined\<close>
  identifier.\<close>

datatype property_value =
    Title "string list"
  | RichText "string list"
  | Email string
  | PhoneNumber string
  | Url string
  | Relation "page_id option list"
  | Select string

type_synonym property_set = "(string \<times> property_value) list"

datatype notion_call =
    DatabasesQuery database_id filter
  | PagesCreate database_id property_set
  | PagesUpdate page_id property_set

text \<open>
  The Notion client is not part of this repository: it is a parameter, three fallible
  operations on a store of some type \<open>'s\<close>. A query answers with the identifiers of its
  results, in order; create and update answer with the identifier of the page.
\<close>

record 's client =
  databases_query :: "database_id \<Rightarrow> filter \<Rightarrow> 's \<Rightarrow> (error + page_id list) \<times> 's"
  pages_create :: "database_id \<Rightarrow> property_set \<Rightarrow> 's \<Rightarrow> (error + page_id) \<times> 's"
  pages_update :: "page_id \<Rightarrow> property_set \<Rightarrow> 's \<Rightarrow> (error + page_id) \<times> 's"

text \<open>The constants of \<open>./notion\<close>, a module that is not in the sources: a parameter.\<close>

record databases_ids =
  organizations :: database_id
  contacts :: database_id

text \<open>The world a request runs in: the store, and the calls made to it so far, oldest first.\<close>

type_synonym 's world = "'s \<times> notion_call list"

definition query :: "'s client \<Rightarrow> database_id \<Rightarrow> filter \<Rightarrow> 's world \<Rightarrow> (error + page_id list) \<times> 's world" where
  "query cl db f w =
     (case databases_query cl db f (fst w) of
        (r, s') \<Rightarrow> (r, (s', snd w @ [DatabasesQuery db f])))"

definition create :: "'s client \<Rightarrow> database_id \<Rightarrow> property_set \<Rightarrow> 's world \<Rightarrow> (error + page_id) \<times> 's world" where
  "create cl db ps w =
     (case pages_create cl db ps (fst w) of
        (r, s') \<Rightarrow> (r, (s', snd w @ [PagesCreate db ps])))"

definition update :: "'s client \<Rightarrow> page_id \<Rightarrow> property_set \<Rightarrow> 's world \<Rightarrow> (error + page_id) \<times> 's world" where
  "update cl pid ps w =
     (case pages_update cl pid ps (fst w) of
        (r, s') \<Rightarrow> (r, (s', snd w @ [PagesUpdate pid ps])))"

section \<open>The request gate\<close>

definition starts_with :: "string \<Rightarrow> string \<Rightarrow> bool" where
  "starts_with s p = (take (length p) s = p)"

definition unauthorized_response :: response where
  "unauthorized_response =
     \<lparr>status = 401, body = JsonBody (json_object [(''error'', Some (JString ''Unauthorized''))])\<rparr>"

text \<open>\<open>protect\<close>: \<open>next\<close> is the rest of the pipeline.\<close>

definition protect :: "env \<Rightarrow> request \<Rightarrow> ('w \<Rightarrow> response \<times> 'w) \<Rightarrow> 'w \<Rightarrow> response \<times> 'w" where
  "protect e req next w =
     (if starts_with (pathname req) ''/public'' then next w
      else if authorization req \<noteq> Some (PASSWORD e) then (unauthorized_response, w)
      else next w)"

section \<open>The error translator\<close>

definition isNotionClientError :: "error \<Rightarrow> bool" where
  "isNotionClientError err = (case err of NotionClientError c m \<Rightarrow> True | _ \<Rightarrow> False)"

definition error_code :: "error \<Rightarrow> string option" where
  "error_code err = (case err of NotionClientError c m \<Rightarrow> Some c | _ \<Rightarrow> None)"

definition onError :: "error \<Rightarrow> response" where
  "onError err =
     (if isNotionClientError err \<and> error_code err = Some APIErrorCode_Unauthorized
      then \<lparr>status = 401, body = JsonBody (json_object
              [(''message'', Some (JString ''Notion responded with an unauthorized error''))])\<rparr>
      else \<lparr>status = 500, body = JsonBody (json_object
              [(''message'', Some (JString ''An error occurred''))])\<rparr>)"

section \<open>The payload validator\<close>

text \<open>
  The schema of \<open>POST /ios-contact\<close>, combinator by combinator. A parser answers \<open>None\<close> when
  the value is rejected. Whether a string is an e-mail address is decided by the validation
  library: \<open>is_email\<close> is a parameter.
\<close>

definition z_string :: "json \<Rightarrow> string option" where
  "z_string v = (case v of JString s \<Rightarrow> Some s | _ \<Rightarrow> None)"

definition z_email :: "(string \<Rightarrow> bool) \<Rightarrow> json \<Rightarrow> string option" where
  "z_email is_email v = (case v of JString s \<Rightarrow> if is_email s then Some s else None | _ \<Rightarrow> None)"

definition z_enum :: "string list \<Rightarrow> json \<Rightarrow> string option" where
  "z_enum vs v = (case v of JString s \<Rightarrow> if s \<in> set vs then Some s else None | _ \<Rightarrow> None)"

text \<open>\<open>.optional()\<close>: \<open>undefined\<close> is accepted as it is (\<open>null\<close> is not \<open>undefined\<close>).\<close>

definition z_optional :: "(json \<Rightarrow> 'a option) \<Rightarrow> json option \<Rightarrow> 'a option option" where
  "z_optional p v = (case v of None \<Rightarrow> Some None | Some j \<Rightarrow> map_option Some (p j))"

text \<open>\<open>.default(d)\<close>: \<open>undefined\<close> is replaced by \<open>d\<close>.\<close>

definition z_default :: "'a \<Rightarrow> (json option \<Rightarrow> 'a option option) \<Rightarrow> json option \<Rightarrow> 'a option" where
  "z_default d p v =
     (case v of None \<Rightarrow> Some d
      | Some j \<Rightarrow> (case p (Some j) of None \<Rightarrow> None | Some None \<Rightarrow> Some d | Some (Some x) \<Rightarrow> Some x))"

definition z_array :: "(json \<Rightarrow> 'a option) \<Rightarrow> json \<Rightarrow> 'a list option" where
  "z_array p v = (case v of JArray xs \<Rightarrow> those (map p xs) | _ \<Rightarrow> None)"

definition z_email_entry :: "(string \<Rightarrow> bool) \<Rightarrow> json \<Rightarrow> email_entry option" where
  "z_email_entry is_email v =
     (case v of
        JObject kvs \<Rightarrow>
          (case get_field kvs ''email'' of
             None \<Rightarrow> None
           | Some je \<Rightarrow>
               (case get_field kvs ''label'' of
                  None \<Rightarrow> None
                | Some jl \<Rightarrow>
                    do {
                      e \<leftarrow> z_email is_email je;
                      l \<leftarrow> z_string jl;
                      Some \<lparr>email = e, email_label = l\<rparr>
                    }))
      | _ \<Rightarrow> None)"

definition z_address :: "json \<Rightarrow> address option" where
  "z_address v =
     (case v of
        JObject kvs \<Rightarrow>
          do {
            ci \<leftarrow> z_optional z_string (get_field kvs ''city'');
            st \<leftarrow> z_optional z_string (get_field kvs ''street'');
            co \<leftarrow> z_optional z_string (get_field kvs ''country'');
            zi \<leftarrow> z_optional z_string (get_field kvs ''zip'');
            sa \<leftarrow> z_optional z_string (get_field kvs ''state'');
            la \<leftarrow> z_optional z_string (get_field kvs ''label'');
            Some \<lparr>city = ci, street = st, country = co, zip = zi, state = sa,
                  address_label = la\<rparr>
          }
      | _ \<Rightarrow> None)"

definition z_phone :: "json \<Rightarrow> phone option" where
  "z_phone v =
     (case v of
        JObject kvs \<Rightarrow>
          (case get_field kvs ''label'' of
             None \<Rightarrow> None
           | Some jl \<Rightarrow>
               (case get_field kvs ''number'' of
                  None \<Rightarrow> None
                | Some jn \<Rightarrow>
                    do {
                      l \<leftarrow> z_string jl;
                      n \<leftarrow> z_string jn;
                      Some \<lparr>phone_label = l, number = n\<rparr>
                    }))
      | _ \<Rightarrow> None)"

text \<open>One element of the body. The keys the schema does not name are dropped. An element of
  \<open>addresses\<close> is an optional object: an element of a parsed JSON array is never \<open>undefined\<close>,
  so it is always handed to the object schema.\<close>

definition z_contact :: "(string \<Rightarrow> bool) \<Rightarrow> json \<Rightarrow> contact option" where
  "z_contact is_email v =
     (case v of
        JObject kvs \<Rightarrow>
          (case get_field kvs ''lastName'' of
             None \<Rightarrow> None
           | Some jln \<Rightarrow>
               do {
                 fn \<leftarrow> z_optional z_string (get_field kvs ''firstName'');
                 org \<leftarrow> z_optional z_string (get_field kvs ''organization'');
                 ln \<leftarrow> z_string jln;
                 es \<leftarrow> z_optional (z_array (z_email_entry is_email)) (get_field kvs ''emails'');
                 as \<leftarrow> z_optional (z_array (\<lambda>j. z_optional z_address (Some j)))
                        (get_field kvs ''addresses'');
                 ps \<leftarrow> z_optional (z_array z_phone) (get_field kvs ''phones'');
                 no \<leftarrow> z_optional z_string (get_field kvs ''note'');
                 we \<leftarrow> z_optional z_string (get_field kvs ''website'');
                 jt \<leftarrow> z_optional z_string (get_field kvs ''jobTitle'');
                 so \<leftarrow> z_default ''ios-contact'' (z_optional (z_enum [''ios-contact'']))
                        (get_field kvs ''source'');
                 Some \<lparr>firstName = fn, organization = org, lastName = ln, emails = es,
                       addresses = as, phones = ps, note_text = no, website = we,
                       jobTitle = jt, source = so\<rparr>
               })
      | _ \<Rightarrow> None)"

definition validate :: "(string \<Rightarrow> bool) \<Rightarrow> json \<Rightarrow> contact list option" where
  "validate is_email v = z_array (z_contact is_email) v"

section \<open>The field normalizer\<close>

text \<open>JavaScript's truthiness of a value of type \<open>string | undefined\<close>: \<open>undefined\<close> and the
  empty string are falsy.\<close>

definition truthy :: "string option \<Rightarrow> bool" where
  "truthy v = (case v of None \<Rightarrow> False | Some s \<Rightarrow> s \<noteq> [])"

text \<open>\<open>xs?.filter(p)[0]\<close>\<close>

definition first_where :: "('a \<Rightarrow> bool) \<Rightarrow> 'a list option \<Rightarrow> 'a option" where
  "first_where p xs =
     (case xs of
        None \<Rightarrow> None
      | Some ys \<Rightarrow> (case filter p ys of [] \<Rightarrow> None | y # _ \<Rightarrow> Some y))"

definition workEmail :: "contact \<Rightarrow> string option" where
  "workEmail c = map_option email (first_where (\<lambda>e. email_label e = ''Work'') (emails c))"

definition homeEmail :: "contact \<Rightarrow> string option" where
  "homeEmail c = map_option email (first_where (\<lambda>e. email_label e = ''Home'') (emails c))"

definition mainPhone :: "contact \<Rightarrow> string option" where
  "mainPhone c = map_option number (first_where (\<lambda>p. phone_label p = ''Main'') (phones c))"

definition workPhone :: "contact \<Rightarrow> string option" where
  "workPhone c = map_option number (first_where (\<lambda>p. phone_label p = ''Work'') (phones c))"

definition mobilePhone :: "contact \<Rightarrow> string option" where
  "mobilePhone c =
     map_option number (first_where (\<lambda>p. phone_label p \<in> set [''iPhone'', ''Mobile'']) (phones c))"

text \<open>The home phone is kept as the entry, not as its number.\<close>

definition homePhone :: "contact \<Rightarrow> phone option" where
  "homePhone c = first_where (\<lambda>p. phone_label p = ''Home'') (phones c)"

text \<open>\<open>address?.label === l\<close>\<close>

definition has_label :: "string \<Rightarrow> address option \<Rightarrow> bool" where
  "has_label l a = (case a of None \<Rightarrow> False | Some x \<Rightarrow> address_label x = Some l)"

definition workAddressData :: "contact \<Rightarrow> address option" where
  "workAddressData c =
     (case first_where (has_label ''Work'') (addresses c) of None \<Rightarrow> None | Some a \<Rightarrow> a)"

definition homeAddressData :: "contact \<Rightarrow> address option" where
  "homeAddressData c =
     (case first_where (has_label ''Home'') (addresses c) of None \<Rightarrow> None | Some a \<Rightarrow> a)"

text \<open>\<open>if (d?.f) acc += d.f + " "\<close>\<close>

definition add_part :: "string \<Rightarrow> string option \<Rightarrow> string" where
  "add_part acc v = (case v of None \<Rightarrow> acc | Some s \<Rightarrow> if s \<noteq> [] then acc @ s @ '' '' else acc)"

text \<open>The four statements that build \<open>workAddress\<close>, and \<open>homeAddress\<close> alike, from the
  selected entry.\<close>

definition address_text :: "address option \<Rightarrow> string" where
  "address_text d =
     (let a0 = [];
          a1 = add_part a0 (Option.bind d street);
          a2 = add_part a1 (Option.bind d zip);
          a3 = add_part a2 (Option.bind d city);
          a4 = add_part a3 (Option.bind d country)
      in a4)"

definition workAddress :: "contact \<Rightarrow> string" where
  "workAddress c = address_text (workAddressData c)"

definition homeAddress :: "contact \<Rightarrow> string" where
  "homeAddress c = address_text (homeAddressData c)"

section \<open>The property set\<close>

text \<open>\<open>...(v && obj)\<close> for a string \<open>v\<close>: the object is spread when \<open>v\<close> is truthy, and
  nothing is otherwise.\<close>

definition spread_string :: "string option \<Rightarrow> (string \<Rightarrow> property_set) \<Rightarrow> property_set" where
  "spread_string v obj = (case v of None \<Rightarrow> [] | Some s \<Rightarrow> if s \<noteq> [] then obj s else [])"

text \<open>\<open>...(v && obj)\<close> for an object \<open>v\<close>: an object is always truthy.\<close>

definition spread_object :: "'a option \<Rightarrow> ('a \<Rightarrow> property_set) \<Rightarrow> property_set" where
  "spread_object v obj = (case v of None \<Rightarrow> [] | Some x \<Rightarrow> obj x)"

definition properties :: "contact \<Rightarrow> page_id option \<Rightarrow> property_set" where
  "properties c organizationId =
     [(''Last Name'', Title [lastName c])]
     @ spread_string (firstName c) (\<lambda>v. [(''First Name'', RichText [v])])
     @ spread_string (workEmail c) (\<lambda>v. [(''Email (Work)'', Email v)])
     @ spread_string (homeEmail c) (\<lambda>v. [(''Email (Home)'', Email v)])
     @ spread_string (mainPhone c) (\<lambda>v. [(''Main'', PhoneNumber v)])
     @ spread_string (workPhone c) (\<lambda>v. [(''Work'', PhoneNumber v)])
     @ spread_string (mobilePhone c) (\<lambda>v. [(''Mobile'', PhoneNumber v)])
     @ spread_object (homePhone c) (\<lambda>p. [(''Home'', PhoneNumber (number p))])
     @ spread_object (workAddressData c) (\<lambda>_. [(''Address (Work)'', RichText [workAddress c])])
     @ spread_object (homeAddressData c) (\<lambda>_. [(''Address (Home)'', RichText [homeAddress c])])
     @ spread_string (note_text c) (\<lambda>v. [(''iOS Notes'', RichText [v])])
     @ spread_string (website c) (\<lambda>v. [(''Website'', Url v)])
     @ spread_string (jobTitle c) (\<lambda>v. [(''Job Title'', RichText [v])])
     @ spread_string (organization c) (\<lambda>_. [(''Organization'', Relation [organizationId])])
     @ [(''Source'', Select (if source c = ''ios-contact'' then ''iOS Contact'' else source c))]"

section \<open>The organization resolver\<close>

definition resolve_organization ::
  "databases_ids \<Rightarrow> 's client \<Rightarrow> string option \<Rightarrow> 's world \<Rightarrow> (error + page_id option) \<times> 's world" where
  "resolve_organization ids cl org w =
     (case org of
        None \<Rightarrow> (Inr None, w)
      | Some name \<Rightarrow>
          if name \<noteq> [] then
            (case query cl (organizations ids) (TitleEquals ''Name'' name) w of
               (Inl err, w1) \<Rightarrow> (Inl err, w1)
             | (Inr results, w1) \<Rightarrow>
                 (case results of
                    r # _ \<Rightarrow> (Inr (Some r), w1)
                  | [] \<Rightarrow>
                      (case create cl (organizations ids) [(''Name'', Title [name])] w1 of
                         (Inl err, w2) \<Rightarrow> (Inl err, w2)
                       | (Inr new_id, w2) \<Rightarrow> (Inr (Some new_id), w2))))
          else (Inr None, w))"

section \<open>The contact upserter\<close>

definition contact_filter :: "contact \<Rightarrow> filter" where
  "contact_filter c =
     And [TitleEquals ''Last Name'' (lastName c),
          RichTextEquals ''First Name'' (case firstName c of None \<Rightarrow> [] | Some v \<Rightarrow> v)]"

definition created_response :: "contact \<Rightarrow> page_id \<Rightarrow> response" where
  "created_response c pid =
     \<lparr>status = 201, body = JsonBody (json_object
        [(''message'', Some (JString ''Successfully created contact'')),
         (''pageId'', Some (JString pid)),
         (''firstName'', map_option JString (firstName c)),
         (''lastName'', Some (JString (lastName c)))])\<rparr>"

definition updated_response :: "contact \<Rightarrow> page_id \<Rightarrow> response" where
  "updated_response c pid =
     \<lparr>status = 200, body = JsonBody (json_object
        [(''message'', Some (JString ''Successfully updated contact'')),
         (''firstName'', map_option JString (firstName c)),
         (''lastName'', Some (JString (lastName c))),
         (''pageId'', Some (JString pid))])\<rparr>"

text \<open>The handler of \<open>POST /ios-contact\<close> on the validated body. Destructuring the first
  element of an empty array throws; an error of the store is thrown on.\<close>

definition ios_contact ::
  "databases_ids \<Rightarrow> 's client \<Rightarrow> contact list \<Rightarrow> 's world \<Rightarrow> (error + response) \<times> 's world" where
  "ios_contact ids cl valid w =
     (case valid of
        [] \<Rightarrow> (Inl (TypeError ''Cannot destructure property of undefined''), w)
      | c # _ \<Rightarrow>
          (case resolve_organization ids cl (organization c) w of
             (Inl err, w1) \<Rightarrow> (Inl err, w1)
           | (Inr organizationId, w1) \<Rightarrow>
               (case query cl (contacts ids) (contact_filter c) w1 of
                  (Inl err, w2) \<Rightarrow> (Inl err, w2)
                | (Inr results, w2) \<Rightarrow>
                    (case results of
                       [] \<Rightarrow>
                         (case create cl (contacts ids) (properties c organizationId) w2 of
                            (Inl err, w3) \<Rightarrow> (Inl err, w3)
                          | (Inr new_id, w3) \<Rightarrow> (Inr (created_response c new_id), w3))
                     | r # _ \<Rightarrow>
                         (case update cl r (properties c organizationId) w2 of
                            (Inl err, w3) \<Rightarrow> (Inl err, w3)
                          | (Inr pid, w3) \<Rightarrow> (Inr (updated_response c pid), w3))))))"

section \<open>The application\<close>

definition hello_response :: response where
  "hello_response = \<lparr>status = 200, body = TextBody ''Hello World''\<rparr>"

text \<open>What the framework answers when no route matches, and what the validator answers when
  the body is rejected.\<close>

definition not_found_response :: response where
  "not_found_response = \<lparr>status = 404, body = TextBody ''404 Not Found''\<rparr>"

definition validation_failure_response :: response where
  "validation_failure_response = \<lparr>status = 400, body = ZodErrorBody\<rparr>"

text \<open>The routes behind the gate. An error thrown by a handler reaches \<open>onError\<close>. The
  method and the pathname are matched as they are written: what the framework does with a
  \<open>HEAD\<close> request or with a percent-encoded path is not modelled.\<close>

definition routes ::
  "(string \<Rightarrow> bool) \<Rightarrow> databases_ids \<Rightarrow> 's client \<Rightarrow> request \<Rightarrow> 's world \<Rightarrow> response \<times> 's world" where
  "routes is_email ids cl req w =
     (if http_method req = ''GET'' \<and> pathname req = ''/public'' then (hello_response, w)
      else if http_method req = ''POST'' \<and> pathname req = ''/ios-contact'' then
        (case validate is_email (payload req) of
           None \<Rightarrow> (validation_failure_response, w)
         | Some valid \<Rightarrow>
             (case ios_contact ids cl valid w of
                (Inl err, w') \<Rightarrow> (onError err, w')
              | (Inr resp, w') \<Rightarrow> (resp, w')))
      else (not_found_response, w))"

definition app ::
  "(string \<Rightarrow> bool) \<Rightarrow> databases_ids \<Rightarrow> env \<Rightarrow> 's client \<Rightarrow> request \<Rightarrow> 's world \<Rightarrow> response \<times> 's world" where
  "app is_email ids e cl req w = protect e req (routes is_email ids cl req) w"

section \<open>The display string of an address, as specified\<close>

text \<open>
  The specification's wording of the display string, to be compared with \<open>address_text\<close>:
  the sub-fields street, zip, city, country, in this order, each one that is present
  followed by a space, each one that is absent left out.
\<close>

definition spec_address_text :: "address \<Rightarrow> string" where
  "spec_address_text a =
     concat (map (\<lambda>f. case f of None \<Rightarrow> [] | Some s \<Rightarrow> s @ '' '')
       [street a, zip a, city a, country a])"

section \<open>Malformed payloads, as the schema describes them\<close>

text \<open>
  What makes an element of the body malformed, read off the constraints of the schema and
  written without the parsers, to be compared with them. A required string must be there
  and be a string; an optional string may be missing, and must be a string when it is
  there (\<open>null\<close> is not a string).
\<close>

definition is_string :: "json \<Rightarrow> bool" where
  "is_string v = (case v of JString s \<Rightarrow> True | _ \<Rightarrow> False)"

definition required_string :: "json option \<Rightarrow> bool" where
  "required_string v = (case v of None \<Rightarrow> False | Some j \<Rightarrow> is_string j)"

definition optional_string :: "json option \<Rightarrow> bool" where
  "optional_string v = (case v of None \<Rightarrow> True | Some j \<Rightarrow> is_string j)"

text \<open>An entry of \<open>emails\<close>: an object with an \<open>email\<close> string that is an e-mail address and a
  \<open>label\<close> string.\<close>

definition malformed_email_entry :: "(string \<Rightarrow> bool) \<Rightarrow> json \<Rightarrow> bool" where
  "malformed_email_entry is_email j =
     (case j of
        JObject kvs \<Rightarrow>
          \<not> (case get_field kvs ''email'' of Some (JString s) \<Rightarrow> is_email s | _ \<Rightarrow> False)
          \<or> \<not> required_string (get_field kvs ''label'')
      | _ \<Rightarrow> True)"

text \<open>An entry of \<open>phones\<close>: an object with a \<open>label\<close> string and a \<open>number\<close> string.\<close>

definition malformed_phone_entry :: "json \<Rightarrow> bool" where
  "malformed_phone_entry j =
     (case j of
        JObject kvs \<Rightarrow>
          \<not> required_string (get_field kvs ''label'')
          \<or> \<not> required_string (get_field kvs ''number'')
      | _ \<Rightarrow> True)"

text \<open>An entry of \<open>addresses\<close>: an object whose six sub-fields are optional strings.\<close>

definition malformed_address_entry :: "json \<Rightarrow> bool" where
  "malformed_address_entry j =
     (case j of
        JObject kvs \<Rightarrow>
          (\<exists>k \<in> set [''city'', ''street'', ''country'', ''zip'', ''state'', ''label''].
             \<not> optional_string (get_field kvs k))
      | _ \<Rightarrow> True)"

text \<open>An optional collection: it may be missing; when it is there it must be an array,
  none of whose entries is malformed.\<close>

definition malformed_collection :: "(json \<Rightarrow> bool) \<Rightarrow> json option \<Rightarrow> bool" where
  "malformed_collection bad v =
     (case v of
        None \<Rightarrow> False
      | Some (JArray xs) \<Rightarrow> (\<exists>x \<in> set xs. bad x)
      | Some _ \<Rightarrow> True)"

text \<open>An element of the body is malformed when it is not an object, when it has no
  \<open>lastName\<close> string, when one of its optional strings is there and is not a string, when
  one of its collections is malformed, or when its \<open>source\<close> is there and is not the string
  \<open>ios-contact\<close>.\<close>

definition malformed_contact :: "(string \<Rightarrow> bool) \<Rightarrow> json \<Rightarrow> bool" where
  "malformed_contact is_email j =
     (case j of
        JObject kvs \<Rightarrow>
          \<not> required_string (get_field kvs ''lastName'')
          \<or> (\<exists>k \<in> set [''firstName'', ''organization'', ''note'', ''website'', ''jobTitle''].
                \<not> optional_string (get_field kvs k))
          \<or> malformed_collection (malformed_email_entry is_email) (get_field kvs ''emails'')
          \<or> malformed_collection malformed_address_entry (get_field kvs ''addresses'')
          \<or> malformed_collection malformed_phone_entry (get_field kvs ''phones'')
          \<or> (case get_field kvs ''source'' of
                None \<Rightarrow> False
              | Some v \<Rightarrow> v \<noteq> JString ''ios-contact'')
      | _ \<Rightarrow> True)"

section \<open>Clients for the examples\<close>

text \<open>Two small clients on which the theorems below are run. With the first, a query of the
  collection \<open>db\<close> finds \<open>found db\<close>, a created page is called \<open>fresh\<close>, and an update answers
  with the page it was given; the store counts the writes. With the second, every call
  throws \<open>err\<close>.\<close>

definition scripted_client :: "(database_id \<Rightarrow> page_id list) \<Rightarrow> page_id \<Rightarrow> nat client" where
  "scripted_client found fresh =
     \<lparr>databases_query = (\<lambda>db f s. (Inr (found db), s)),
      pages_create = (\<lambda>db ps s. (Inr fresh, Suc s)),
      pages_update = (\<lambda>pid ps s. (Inr pid, Suc s))\<rparr>"

definition failing_client :: "error \<Rightarrow> unit client" where
  "failing_client err =
     \<lparr>databases_query = (\<lambda>db f s. (Inl err, s)),
      pages_create = (\<lambda>db ps s. (Inl err, s)),
      pages_update = (\<lambda>pid ps s. (Inl err, s))\<rparr>"

section \<open>Properties of the request gate\<close>

text \<open>
  Claim C6. A request whose pathname starts with \<open>/public\<close> goes through the gate whatever
  its headers are: the application answers what the routes behind the gate answer. Any
  other request goes through when its \<open>Authorization\<close> header is there and equal to the
  configured secret; when the header is missing or different, the answer is 401 with the
  body \<open>{"error":"Unauthorized"}\<close> and the world is left as it was: no call to the store is
  made. And \<open>GET /public\<close> answers 200 with the text \<open>Hello World\<close>, with or without a header.
\<close>

theorem gate_contract:
  "(starts_with (pathname req) ''/public''
        \<longrightarrow> app is_email ids e cl req w = routes is_email ids cl req w)
   \<and> (\<not> starts_with (pathname req) ''/public'' \<and> authorization req = Some (PASSWORD e)
        \<longrightarrow> app is_email ids e cl req w = routes is_email ids cl req w)
   \<and> (\<not> starts_with (pathname req) ''/public'' \<and> authorization req \<noteq> Some (PASSWORD e)
        \<longrightarrow> app is_email ids e cl req w =
              (\<lparr>status = 401, body = JsonBody (JObject [(''error'', JString ''Unauthorized'')])\<rparr>, w))
   \<and> (http_method req = ''GET'' \<and> pathname req = ''/public''
        \<longrightarrow> app is_email ids e cl req w = (\<lparr>status = 200, body = TextBody ''Hello World''\<rparr>, w))"
  by (simp add: protect_def app_def routes_def unauthorized_response_def json_object_def
      hello_response_def starts_with_def)

theorem gate_contract_witness:
  "app (\<lambda>s. True) \<lparr>organizations = ''orgs'', contacts = ''people''\<rparr>
       \<lparr>NOTION_TOKEN = ''token'', PASSWORD = ''secret''\<rparr> (scripted_client (\<lambda>db. []) ''p1'')
       \<lparr>http_method = ''GET'', pathname = ''/public'', authorization = None, payload = JNull\<rparr> (0, [])
     = (\<lparr>status = 200, body = TextBody ''Hello World''\<rparr>, (0, []))
   \<and> app (\<lambda>s. True) \<lparr>organizations = ''orgs'', contacts = ''people''\<rparr>
       \<lparr>NOTION_TOKEN = ''token'', PASSWORD = ''secret''\<rparr> (scripted_client (\<lambda>db. []) ''p1'')
       \<lparr>http_method = ''POST'', pathname = ''/ios-contact'', authorization = None,
        payload = JArray [JObject [(''lastName'', JString ''Doe'')]]\<rparr> (0, [])
     = (\<lparr>status = 401, body = JsonBody (JObject [(''error'', JString ''Unauthorized'')])\<rparr>, (0, []))
   \<and> app (\<lambda>s. True) \<lparr>organizations = ''orgs'', contacts = ''people''\<rparr>
       \<lparr>NOTION_TOKEN = ''token'', PASSWORD = ''secret''\<rparr> (scripted_client (\<lambda>db. []) ''p1'')
       \<lparr>http_method = ''GET'', pathname = ''/nowhere'', authorization = Some ''secret'',
        payload = JNull\<rparr> (0, [])
     = routes (\<lambda>s. True) \<lparr>organizations = ''orgs'', contacts = ''people''\<rparr>
       (scripted_client (\<lambda>db. []) ''p1'')
       \<lparr>http_method = ''GET'', pathname = ''/nowhere'', authorization = Some ''secret'',
        payload = JNull\<rparr> (0, [])
   \<and> app (\<lambda>s. True) \<lparr>organizations = ''orgs'', contacts = ''people''\<rparr>
       \<lparr>NOTION_TOKEN = ''token'', PASSWORD = ''secret''\<rparr> (scripted_client (\<lambda>db. []) ''p1'')
       \<lparr>http_method = ''GET'', pathname = ''/public/anything'', authorization = Some ''wrong'',
        payload = JNull\<rparr> (0, [])
     = routes (\<lambda>s. True) \<lparr>organizations = ''orgs'', contacts = ''people''\<rparr>
       (scripted_client (\<lambda>db. []) ''p1'')
       \<lparr>http_method = ''GET'', pathname = ''/public/anything'', authorization = Some ''wrong'',
        payload = JNull\<rparr> (0, [])"
proof -
  let ?e = "\<lparr>NOTION_TOKEN = ''token'', PASSWORD = ''secret''\<rparr>"
  let ?ids = "\<lparr>organizations = ''orgs'', contacts = ''people''\<rparr>"
  let ?cl = "scripted_client (\<lambda>db. []) ''p1''"
  let ?w = "(0::nat, [] :: notion_call list)"
  have b: "\<not> starts_with ''/ios-contact'' ''/public''"
    and c: "starts_with ''/public/anything'' ''/public''"
    and d: "\<not> starts_with ''/nowhere'' ''/public''"
    by (simp_all add: starts_with_def)
  note g1 = gate_contract [where req = "\<lparr>http_method = ''GET'', pathname = ''/public'',
      authorization = None, payload = JNull\<rparr>" and e = ?e and is_email = "\<lambda>s. True"
      and ids = ?ids and cl = ?cl and w = ?w]
  note g2 = gate_contract [where req = "\<lparr>http_method = ''POST'', pathname = ''/ios-contact'',
      authorization = None, payload = JArray [JObject [(''lastName'', JString ''Doe'')]]\<rparr>"
      and e = ?e and is_email = "\<lambda>s. True" and ids = ?ids and cl = ?cl and w = ?w]
  note g3 = gate_contract [where req = "\<lparr>http_method = ''GET'', pathname = ''/nowhere'',
      authorization = Some ''secret'', payload = JNull\<rparr>"
      and e = ?e and is_email = "\<lambda>s. True" and ids = ?ids and cl = ?cl and w = ?w]
  note g4 = gate_contract [where req = "\<lparr>http_method = ''GET'', pathname = ''/public/anything'',
      authorization = Some ''wrong'', payload = JNull\<rparr>"
      and e = ?e and is_email = "\<lambda>s. True" and ids = ?ids and cl = ?cl and w = ?w]
  from g1 have "app (\<lambda>s. True) ?ids ?e ?cl
       \<lparr>http_method = ''GET'', pathname = ''/public'', authorization = None, payload = JNull\<rparr> ?w
     = (\<lparr>status = 200, body = TextBody ''Hello World''\<rparr>, ?w)"
    by simp
  moreover from g2 b have "app (\<lambda>s. True) ?ids ?e ?cl
       \<lparr>http_method = ''POST'', pathname = ''/ios-contact'', authorization = None,
        payload = JArray [JObject [(''lastName'', JString ''Doe'')]]\<rparr> ?w
     = (\<lparr>status = 401, body = JsonBody (JObject [(''error'', JString ''Unauthorized'')])\<rparr>, ?w)"
    by simp
  moreover from g3 d have "app (\<lambda>s. True) ?ids ?e ?cl
       \<lparr>http_method = ''GET'', pathname = ''/nowhere'', authorization = Some ''secret'',
        payload = JNull\<rparr> ?w
     = routes (\<lambda>s. True) ?ids ?cl \<lparr>http_method = ''GET'', pathname = ''/nowhere'',
        authorization = Some ''secret'', payload = JNull\<rparr> ?w"
    by simp
  moreover from g4 c have "app (\<lambda>s. True) ?ids ?e ?cl
       \<lparr>http_method = ''GET'', pathname = ''/public/anything'', authorization = Some ''wrong'',
        payload = JNull\<rparr> ?w
     = routes (\<lambda>s. True) ?ids ?cl \<lparr>http_method = ''GET'', pathname = ''/public/anything'',
        authorization = Some ''wrong'', payload = JNull\<rparr> ?w"
    by simp
  ultimately show ?thesis by blast
qed

section \<open>Properties of the error translator\<close>

text \<open>
  Claim C7. An error of the Notion client whose code is the unauthorized code is answered
  with 401 and the message \<open>Notion responded with an unauthorized error\<close>; every other
  error is answered with 500 and the message \<open>An error occurred\<close>. So the answer is one of
  two fixed responses and carries nothing of the error. An error thrown by the handler of
  \<open>POST /ios-contact\<close> is answered this way.
\<close>

theorem error_translation:
  "(isNotionClientError err \<and> error_code err = Some ''unauthorized''
      \<longrightarrow> onError err = \<lparr>status = 401, body = JsonBody (JObject
             [(''message'', JString ''Notion responded with an unauthorized error'')])\<rparr>)
   \<and> (\<not> (isNotionClientError err \<and> error_code err = Some ''unauthorized'')
      \<longrightarrow> onError err = \<lparr>status = 500, body = JsonBody (JObject
             [(''message'', JString ''An error occurred'')])\<rparr>)
   \<and> (http_method req = ''POST'' \<and> pathname req = ''/ios-contact''
        \<and> validate is_email (payload req) = Some valid
        \<and> ios_contact ids cl valid w = (Inl err, w')
      \<longrightarrow> routes is_email ids cl req w = (onError err, w'))"
  by (simp add: onError_def APIErrorCode_Unauthorized_def json_object_def routes_def)

theorem error_translation_witness:
  "routes (\<lambda>s. True) \<lparr>organizations = ''orgs'', contacts = ''people''\<rparr>
      (failing_client (NotionClientError ''unauthorized'' ''API token is invalid.''))
      \<lparr>http_method = ''POST'', pathname = ''/ios-contact'', authorization = Some ''secret'',
       payload = JArray [JObject [(''lastName'', JString ''Doe'')]]\<rparr> ((), [])
     = (\<lparr>status = 401, body = JsonBody (JObject
          [(''message'', JString ''Notion responded with an unauthorized error'')])\<rparr>,
        ((), [DatabasesQuery ''people''
                (And [TitleEquals ''Last Name'' ''Doe'', RichTextEquals ''First Name'' []])]))
   \<and> onError (NotionClientError ''rate_limited'' ''Too many requests.'')
     = \<lparr>status = 500, body = JsonBody (JObject [(''message'', JString ''An error occurred'')])\<rparr>
   \<and> onError (OtherError ''fetch failed'')
     = \<lparr>status = 500, body = JsonBody (JObject [(''message'', JString ''An error occurred'')])\<rparr>"
proof -
  let ?ids = "\<lparr>organizations = ''orgs'', contacts = ''people''\<rparr>"
  let ?err = "NotionClientError ''unauthorized'' ''API token is invalid.''"
  let ?c = "\<lparr>firstName = None, organization = None, lastName = ''Doe'', emails = None,
      addresses = None, phones = None, note_text = None, website = None, jobTitle = None,
      source = ''ios-contact''\<rparr>"
  let ?w' = "((), [DatabasesQuery ''people''
      (And [TitleEquals ''Last Name'' ''Doe'', RichTextEquals ''First Name'' []])])"
  have v: "validate (\<lambda>s. True) (JArray [JObject [(''lastName'', JString ''Doe'')]]) = Some [?c]"
    by (simp add: validate_def z_array_def z_contact_def get_field_def z_optional_def
        z_string_def z_default_def)
  have h: "ios_contact ?ids (failing_client ?err) [?c] ((), []) = (Inl ?err, ?w')"
    by (simp add: ios_contact_def resolve_organization_def query_def failing_client_def
        contact_filter_def)
  have c: "isNotionClientError ?err \<and> error_code ?err = Some ''unauthorized''"
    by (simp add: isNotionClientError_def error_code_def)
  note t1 = error_translation [where err = ?err and is_email = "\<lambda>s. True" and ids = ?ids
      and cl = "failing_client ?err" and valid = "[?c]" and w = "((), [])" and w' = ?w'
      and req = "\<lparr>http_method = ''POST'', pathname = ''/ios-contact'',
        authorization = Some ''secret'',
        payload = JArray [JObject [(''lastName'', JString ''Doe'')]]\<rparr>"]
  from t1 v h c have "routes (\<lambda>s. True) ?ids (failing_client ?err)
      \<lparr>http_method = ''POST'', pathname = ''/ios-contact'', authorization = Some ''secret'',
       payload = JArray [JObject [(''lastName'', JString ''Doe'')]]\<rparr> ((), [])
     = (\<lparr>status = 401, body = JsonBody (JObject
          [(''message'', JString ''Notion responded with an unauthorized error'')])\<rparr>, ?w')"
    by simp
  moreover have "\<not> (isNotionClientError (NotionClientError ''rate_limited'' ''Too many requests.'')
      \<and> error_code (NotionClientError ''rate_limited'' ''Too many requests.'') = Some ''unauthorized'')"
    by (simp add: error_code_def)
  with error_translation [where err = "NotionClientError ''rate_limited'' ''Too many requests.''"]
  have "onError (NotionClientError ''rate_limited'' ''Too many requests.'')
     = \<lparr>status = 500, body = JsonBody (JObject [(''message'', JString ''An error occurred'')])\<rparr>"
    by blast
  moreover have "\<not> (isNotionClientError (OtherError ''fetch failed'')
      \<and> error_code (OtherError ''fetch failed'') = Some ''unauthorized'')"
    by (simp add: isNotionClientError_def)
  with error_translation [where err = "OtherError ''fetch failed''"]
  have "onError (OtherError ''fetch failed'')
     = \<lparr>status = 500, body = JsonBody (JObject [(''message'', JString ''An error occurred'')])\<rparr>"
    by blast
  ultimately show ?thesis by blast
qed

section \<open>Properties of the payload validator\<close>

text \<open>An array is rejected as soon as one element is, and every element of an accepted
  array was accepted by the element schema.\<close>

lemma z_source_only:
  "z_default ''ios-contact'' (z_optional (z_enum [''ios-contact''])) v = Some so \<Longrightarrow> so = ''ios-contact''"
  by (auto simp: z_default_def z_optional_def z_enum_def split: option.splits json.splits if_splits)

lemma z_contact_Some:
  assumes "z_contact is_email j = Some c"
  shows "\<exists>kvs s. j = JObject kvs \<and> get_field kvs ''lastName'' = Some (JString s) \<and> lastName c = s
     \<and> z_optional (z_array (z_email_entry is_email)) (get_field kvs ''emails'') = Some (emails c)
     \<and> z_default ''ios-contact'' (z_optional (z_enum [''ios-contact''])) (get_field kvs ''source'') = Some (source c)"
proof (cases j)
  case (JObject kvs)
  show ?thesis
  proof (cases "get_field kvs ''lastName''")
    case None
    with assms JObject show ?thesis by (simp add: z_contact_def)
  next
    case (Some jln)
    with assms JObject show ?thesis
      by (cases jln) (auto simp: z_contact_def bind_eq_Some_conv z_string_def)
  qed
qed (use assms in \<open>simp_all add: z_contact_def\<close>)

lemma those_map_Some: "those (map p xs) = Some ys \<Longrightarrow> y \<in> set ys \<Longrightarrow> \<exists>x \<in> set xs. p x = Some y"
proof (induction xs arbitrary: ys)
  case Nil
  then show ?case by simp
next
  case (Cons a xs)
  then show ?case by (auto split: option.splits)
qed

lemma validate_member:
  assumes "validate is_email j = Some valid" "c \<in> set valid"
  shows "\<exists>x. z_contact is_email x = Some c"
proof (cases j)
  case (JArray xs)
  with assms have "those (map (z_contact is_email) xs) = Some valid"
    by (simp add: validate_def z_array_def)
  from those_map_Some [OF this assms(2)] show ?thesis by blast
qed (use assms in \<open>simp_all add: validate_def z_array_def\<close>)

text \<open>Each parser rejects exactly the values that the schema calls malformed.\<close>

lemma those_map_None_iff: "those (map p xs) = None \<longleftrightarrow> (\<exists>x \<in> set xs. p x = None)"
  by (induction xs) (auto split: option.splits)

lemma z_string_None_iff: "z_string v = None \<longleftrightarrow> \<not> is_string v"
  by (simp add: z_string_def is_string_def split: json.splits)

lemma z_optional_string_None_iff:
  "z_optional z_string v = None \<longleftrightarrow> \<not> optional_string v"
  by (simp add: z_optional_def optional_string_def z_string_None_iff split: option.splits)

lemma z_email_entry_None_iff:
  "z_email_entry is_email j = None \<longleftrightarrow> malformed_email_entry is_email j"
  by (cases j)
     (auto simp: z_email_entry_def malformed_email_entry_def z_email_def required_string_def
        bind_eq_None_conv z_string_None_iff split: option.splits json.splits)

lemma z_phone_None_iff: "z_phone j = None \<longleftrightarrow> malformed_phone_entry j"
  by (cases j)
     (auto simp: z_phone_def malformed_phone_entry_def required_string_def
        bind_eq_None_conv z_string_None_iff split: option.splits)

lemma z_address_None_iff:
  "z_optional z_address (Some j) = None \<longleftrightarrow> malformed_address_entry j"
  by (cases j)
     (auto simp: z_address_def malformed_address_entry_def z_optional_def
        bind_eq_None_conv z_optional_string_None_iff [unfolded z_optional_def])

lemma z_collection_None_iff:
  assumes "\<And>x. p x = None \<longleftrightarrow> bad x"
  shows "z_optional (z_array p) v = None \<longleftrightarrow> malformed_collection bad v"
proof (cases v)
  case None
  then show ?thesis by (simp add: z_optional_def malformed_collection_def)
next
  case (Some j)
  then show ?thesis
    by (cases j)
       (simp_all add: z_optional_def malformed_collection_def z_array_def those_map_None_iff assms)
qed

lemma z_source_None_iff:
  "z_default ''ios-contact'' (z_optional (z_enum [''ios-contact''])) v = None \<longleftrightarrow>
     (case v of None \<Rightarrow> False | Some j \<Rightarrow> j \<noteq> JString ''ios-contact'')"
  by (auto simp: z_default_def z_optional_def z_enum_def split: option.splits json.splits)

lemma bind_None_iff: "Option.bind a f = None \<longleftrightarrow> a = None \<or> (\<exists>x. a = Some x \<and> f x = None)"
  by (cases a) simp_all

lemma z_contact_None_iff:
  "z_contact is_email j = None \<longleftrightarrow> malformed_contact is_email j"
proof (cases j)
  case (JObject kvs)
  show ?thesis
  proof (cases "get_field kvs ''lastName''")
    case None
    with JObject show ?thesis
      by (simp add: z_contact_def malformed_contact_def required_string_def)
  next
    case (Some jln)
    let ?fn = "z_optional z_string (get_field kvs ''firstName'')"
    let ?org = "z_optional z_string (get_field kvs ''organization'')"
    let ?ln = "z_string jln"
    let ?es = "z_optional (z_array (z_email_entry is_email)) (get_field kvs ''emails'')"
    let ?as = "z_optional (z_array (\<lambda>j. z_optional z_address (Some j))) (get_field kvs ''addresses'')"
    let ?ps = "z_optional (z_array z_phone) (get_field kvs ''phones'')"
    let ?no = "z_optional z_string (get_field kvs ''note'')"
    let ?we = "z_optional z_string (get_field kvs ''website'')"
    let ?jt = "z_optional z_string (get_field kvs ''jobTitle'')"
    let ?so = "z_default ''ios-contact'' (z_optional (z_enum [''ios-contact''])) (get_field kvs ''source'')"
    have "z_contact is_email j = None \<longleftrightarrow>
        ?fn = None \<or> ?org = None \<or> ?ln = None \<or> ?es = None \<or> ?as = None \<or> ?ps = None
        \<or> ?no = None \<or> ?we = None \<or> ?jt = None \<or> ?so = None"
      using JObject Some by (auto simp: z_contact_def bind_None_iff)
    also have "\<dots> \<longleftrightarrow> malformed_contact is_email j"
      using JObject Some
      by (auto simp: malformed_contact_def z_optional_string_None_iff z_string_None_iff
          required_string_def z_source_None_iff
          z_collection_None_iff [of "z_email_entry is_email" "malformed_email_entry is_email",
            OF z_email_entry_None_iff]
          z_collection_None_iff [of z_phone malformed_phone_entry, OF z_phone_None_iff]
          z_collection_None_iff [of "\<lambda>j. z_optional z_address (Some j)" malformed_address_entry,
            OF z_address_None_iff])
    finally show ?thesis .
  qed
qed (simp_all add: z_contact_def malformed_contact_def)

lemma validate_None_iff:
  "validate is_email (JArray elems) = None \<longleftrightarrow> (\<exists>j \<in> set elems. malformed_contact is_email j)"
  by (simp add: validate_def z_array_def those_map_None_iff z_contact_None_iff)

text \<open>
  Claim C8. A body that is an array is rejected by the validator exactly when one of its
  elements is malformed: it is not an object, it has no \<open>lastName\<close> string, one of its
  optional strings is not a string, its \<open>source\<close> is not \<open>ios-contact\<close>, or one of its
  collections is not an array or holds a malformed entry (an e-mail entry without a
  \<open>label\<close> string or whose \<open>email\<close> is not an e-mail address, a phone entry without a
  \<open>label\<close> or a \<open>number\<close> string, an address entry with a sub-field that is not a string).
  For such a body the answer to an authorized \<open>POST /ios-contact\<close> is the validation
  failure, status 400, with the world as it was: no query, create or update. An element
  without a \<open>lastName\<close> string, and an element with an e-mail that is not an address, are
  malformed.
\<close>

theorem invalid_payload_rejected:
  "(validate is_email (JArray elems) = None \<longleftrightarrow> (\<exists>j \<in> set elems. malformed_contact is_email j))
   \<and> (j \<in> set elems \<and> malformed_contact is_email j
       \<and> http_method req = ''POST'' \<and> pathname req = ''/ios-contact''
       \<and> authorization req = Some (PASSWORD e) \<and> payload req = JArray elems
      \<longrightarrow> validate is_email (payload req) = None
        \<and> app is_email ids e cl req w = (\<lparr>status = 400, body = ZodErrorBody\<rparr>, w))
   \<and> ((\<forall>kvs s. \<not> (j = JObject kvs \<and> get_field kvs ''lastName'' = Some (JString s)))
      \<longrightarrow> malformed_contact is_email j)
   \<and> (j = JObject kvs \<and> get_field kvs ''emails'' = Some (JArray es) \<and> JObject ekvs \<in> set es
       \<and> get_field ekvs ''email'' = Some (JString s) \<and> \<not> is_email s
      \<longrightarrow> malformed_contact is_email j)"
proof (intro conjI impI)
  show "validate is_email (JArray elems) = None \<longleftrightarrow>
      (\<exists>j \<in> set elems. malformed_contact is_email j)"
    by (rule validate_None_iff)
next
  assume a: "j \<in> set elems \<and> malformed_contact is_email j
       \<and> http_method req = ''POST'' \<and> pathname req = ''/ios-contact''
       \<and> authorization req = Some (PASSWORD e) \<and> payload req = JArray elems"
  then have v: "validate is_email (JArray elems) = None"
    unfolding validate_None_iff by blast
  with a show "validate is_email (payload req) = None" by simp
  have "\<not> starts_with ''/ios-contact'' ''/public''"
    by (simp add: starts_with_def)
  with v a show "app is_email ids e cl req w = (\<lparr>status = 400, body = ZodErrorBody\<rparr>, w)"
    by (simp add: app_def protect_def routes_def validation_failure_response_def)
next
  assume a: "\<forall>kvs s. \<not> (j = JObject kvs \<and> get_field kvs ''lastName'' = Some (JString s))"
  show "malformed_contact is_email j"
  proof (cases j)
    case (JObject kvs)
    with a have "\<not> required_string (get_field kvs ''lastName'')"
      by (auto simp: required_string_def is_string_def split: option.splits json.splits)
    with JObject show ?thesis by (simp add: malformed_contact_def)
  qed (simp_all add: malformed_contact_def)
next
  assume a: "j = JObject kvs \<and> get_field kvs ''emails'' = Some (JArray es) \<and> JObject ekvs \<in> set es
       \<and> get_field ekvs ''email'' = Some (JString s) \<and> \<not> is_email s"
  then have "malformed_email_entry is_email (JObject ekvs)"
    by (simp add: malformed_email_entry_def)
  with a have "malformed_collection (malformed_email_entry is_email) (get_field kvs ''emails'')"
    by (auto simp: malformed_collection_def)
  with a show "malformed_contact is_email j"
    by (simp add: malformed_contact_def)
qed

theorem invalid_payload_rejected_witness:
  "app (\<lambda>s. CHR ''@'' \<in> set s) \<lparr>organizations = ''orgs'', contacts = ''people''\<rparr>
       \<lparr>NOTION_TOKEN = ''token'', PASSWORD = ''secret''\<rparr> (scripted_client (\<lambda>db. []) ''p1'')
       \<lparr>http_method = ''POST'', pathname = ''/ios-contact'', authorization = Some ''secret'',
        payload = JArray [JObject [(''lastName'', JString ''Doe'')],
          JObject [(''firstName'', JString ''Jane'')]]\<rparr> (0, [])
     = (\<lparr>status = 400, body = ZodErrorBody\<rparr>, (0, []))
   \<and> app (\<lambda>s. CHR ''@'' \<in> set s) \<lparr>organizations = ''orgs'', contacts = ''people''\<rparr>
       \<lparr>NOTION_TOKEN = ''token'', PASSWORD = ''secret''\<rparr> (scripted_client (\<lambda>db. []) ''p1'')
       \<lparr>http_method = ''POST'', pathname = ''/ios-contact'', authorization = Some ''secret'',
        payload = JArray [JObject [(''lastName'', JString ''Doe'')],
          JObject [(''lastName'', JString ''Doe''),
          (''emails'', JArray [JObject [(''email'', JString ''not an address''),
                                        (''label'', JString ''Work'')]])]]\<rparr> (0, [])
     = (\<lparr>status = 400, body = ZodErrorBody\<rparr>, (0, []))
   \<and> app (\<lambda>s. CHR ''@'' \<in> set s) \<lparr>organizations = ''orgs'', contacts = ''people''\<rparr>
       \<lparr>NOTION_TOKEN = ''token'', PASSWORD = ''secret''\<rparr> (scripted_client (\<lambda>db. []) ''p1'')
       \<lparr>http_method = ''POST'', pathname = ''/ios-contact'', authorization = Some ''secret'',
        payload = JArray [JObject [(''lastName'', JString ''Doe'')],
          JObject [(''lastName'', JString ''Doe''),
          (''emails'', JArray [JObject [(''email'', JString ''jane@example.org'')]])]]\<rparr> (0, [])
     = (\<lparr>status = 400, body = ZodErrorBody\<rparr>, (0, []))
   \<and> app (\<lambda>s. CHR ''@'' \<in> set s) \<lparr>organizations = ''orgs'', contacts = ''people''\<rparr>
       \<lparr>NOTION_TOKEN = ''token'', PASSWORD = ''secret''\<rparr> (scripted_client (\<lambda>db. []) ''p1'')
       \<lparr>http_method = ''POST'', pathname = ''/ios-contact'', authorization = Some ''secret'',
        payload = JArray [JObject [(''lastName'', JString ''Doe'')],
          JObject [(''lastName'', JString ''Doe''),
          (''phones'', JArray [JObject [(''label'', JString ''Main'')]])]]\<rparr> (0, [])
     = (\<lparr>status = 400, body = ZodErrorBody\<rparr>, (0, []))
   \<and> app (\<lambda>s. CHR ''@'' \<in> set s) \<lparr>organizations = ''orgs'', contacts = ''people''\<rparr>
       \<lparr>NOTION_TOKEN = ''token'', PASSWORD = ''secret''\<rparr> (scripted_client (\<lambda>db. []) ''p1'')
       \<lparr>http_method = ''POST'', pathname = ''/ios-contact'', authorization = Some ''secret'',
        payload = JArray [JObject [(''lastName'', JString ''Doe'')],
          JObject [(''lastName'', JString ''Doe''),
          (''addresses'', JArray [JObject [(''city'', JNumber 75002)]])]]\<rparr> (0, [])
     = (\<lparr>status = 400, body = ZodErrorBody\<rparr>, (0, []))
   \<and> app (\<lambda>s. CHR ''@'' \<in> set s) \<lparr>organizations = ''orgs'', contacts = ''people''\<rparr>
       \<lparr>NOTION_TOKEN = ''token'', PASSWORD = ''secret''\<rparr> (scripted_client (\<lambda>db. []) ''p1'')
       \<lparr>http_method = ''POST'', pathname = ''/ios-contact'', authorization = Some ''secret'',
        payload = JArray [JObject [(''lastName'', JString ''Doe'')],
          JObject [(''lastName'', JString ''Doe''), (''note'', JNull)]]\<rparr> (0, [])
     = (\<lparr>status = 400, body = ZodErrorBody\<rparr>, (0, []))"
proof -
  let ?is = "\<lambda>s. CHR ''@'' \<in> set s"
  let ?ids = "\<lparr>organizations = ''orgs'', contacts = ''people''\<rparr>"
  let ?e = "\<lparr>NOTION_TOKEN = ''token'', PASSWORD = ''secret''\<rparr>"
  let ?cl = "scripted_client (\<lambda>db. []) ''p1''"
  let ?w = "(0::nat, [] :: notion_call list)"
  let ?ok = "JObject [(''lastName'', JString ''Doe'')]"
  note defs = malformed_contact_def malformed_collection_def malformed_email_entry_def
    malformed_phone_entry_def malformed_address_entry_def required_string_def
    optional_string_def is_string_def get_field_def
  have rejected: "app ?is ?ids ?e ?cl
       \<lparr>http_method = ''POST'', pathname = ''/ios-contact'', authorization = Some ''secret'',
        payload = JArray [?ok, elem]\<rparr> ?w = (\<lparr>status = 400, body = ZodErrorBody\<rparr>, ?w)"
    if "malformed_contact ?is elem" for elem
    using that invalid_payload_rejected [where j = elem and elems = "[?ok, elem]"
        and is_email = ?is and e = ?e and ids = ?ids and cl = ?cl and w = ?w
        and req = "\<lparr>http_method = ''POST'', pathname = ''/ios-contact'',
          authorization = Some ''secret'', payload = JArray [?ok, elem]\<rparr>"]
    by simp
  have m1: "malformed_contact ?is (JObject [(''firstName'', JString ''Jane'')])"
    by (simp add: defs)
  have m2: "malformed_contact ?is (JObject [(''lastName'', JString ''Doe''),
         (''emails'', JArray [JObject [(''email'', JString ''not an address''),
                                       (''label'', JString ''Work'')]])])"
    by (simp add: defs)
  have m3: "malformed_contact ?is (JObject [(''lastName'', JString ''Doe''),
         (''emails'', JArray [JObject [(''email'', JString ''jane@example.org'')]])])"
    by (simp add: defs)
  have m4: "malformed_contact ?is (JObject [(''lastName'', JString ''Doe''),
         (''phones'', JArray [JObject [(''label'', JString ''Main'')]])])"
    by (simp add: defs)
  have m5: "malformed_contact ?is (JObject [(''lastName'', JString ''Doe''),
         (''addresses'', JArray [JObject [(''city'', JNumber 75002)]])])"
    by (simp add: defs)
  have m6: "malformed_contact ?is (JObject [(''lastName'', JString ''Doe''), (''note'', JNull)])"
    by (simp add: defs)
  show ?thesis
    by (intro conjI rejected [OF m1] rejected [OF m2] rejected [OF m3] rejected [OF m4]
        rejected [OF m5] rejected [OF m6])
qed

text \<open>
  Claim C9. The empty array passes the validator, which asks for no minimum length. The
  handler then throws while destructuring the first element, before any call to the store,
  and the answer to an authorized \<open>POST /ios-contact\<close> is 500 with the message
  \<open>An error occurred\<close>, the world being as it was.
\<close>

theorem empty_batch:
  assumes "http_method req = ''POST''" and "pathname req = ''/ios-contact''"
    and "authorization req = Some (PASSWORD e)" and "payload req = JArray []"
  shows "validate is_email (payload req) = Some []
       \<and> (\<exists>msg. ios_contact ids cl [] w = (Inl (TypeError msg), w))
       \<and> app is_email ids e cl req w =
           (\<lparr>status = 500, body = JsonBody (JObject [(''message'', JString ''An error occurred'')])\<rparr>, w)"
proof -
  have v: "validate is_email (JArray []) = Some []"
    by (simp add: validate_def z_array_def)
  have h: "ios_contact ids cl [] w = (Inl (TypeError ''Cannot destructure property of undefined''), w)"
    by (simp add: ios_contact_def)
  have g: "\<not> starts_with ''/ios-contact'' ''/public''"
    by (simp add: starts_with_def)
  have "app is_email ids e cl req w = (onError (TypeError ''Cannot destructure property of undefined''), w)"
    using assms v h g by (simp add: app_def protect_def routes_def)
  then show ?thesis
    using assms(4) v h by (simp add: onError_def isNotionClientError_def json_object_def)
qed

theorem empty_batch_witness:
  "app (\<lambda>s. CHR ''@'' \<in> set s) \<lparr>organizations = ''orgs'', contacts = ''people''\<rparr>
       \<lparr>NOTION_TOKEN = ''token'', PASSWORD = ''secret''\<rparr> (scripted_client (\<lambda>db. []) ''p1'')
       \<lparr>http_method = ''POST'', pathname = ''/ios-contact'', authorization = Some ''secret'',
        payload = JArray []\<rparr> (0, [])
     = (\<lparr>status = 500, body = JsonBody (JObject [(''message'', JString ''An error occurred'')])\<rparr>,
        (0, []))"
  using empty_batch [where req = "\<lparr>http_method = ''POST'', pathname = ''/ios-contact'',
        authorization = Some ''secret'', payload = JArray []\<rparr>"
      and e = "\<lparr>NOTION_TOKEN = ''token'', PASSWORD = ''secret''\<rparr>"
      and is_email = "\<lambda>s. CHR ''@'' \<in> set s"
      and ids = "\<lparr>organizations = ''orgs'', contacts = ''people''\<rparr>"
      and cl = "scripted_client (\<lambda>db. []) ''p1''" and w = "(0, [])"]
  by simp

section \<open>Properties of the property set\<close>

text \<open>Looking a key up in a spread, and the keys a spread can bring.\<close>

lemma map_of_spread_string:
  "map_of (spread_string v (\<lambda>x. [(k', f x)])) k =
     (if k = k' \<and> truthy v then Some (f (the v)) else None)"
  by (simp add: spread_string_def truthy_def split: option.splits)

lemma map_of_spread_object:
  "map_of (spread_object v (\<lambda>x. [(k', f x)])) k = (if k = k' then map_option f v else None)"
  by (simp add: spread_object_def split: option.splits)

lemma source_lookup:
  "map_of (properties c oid) ''Source'' =
     Some (Select (if source c = ''ios-contact'' then ''iOS Contact'' else source c))"
  by (simp add: properties_def map_add_def map_of_spread_string map_of_spread_object)

lemma set_spread_string:
  "(k, v) \<in> set (spread_string x (\<lambda>y. [(k', f y)])) \<Longrightarrow> k = k'"
  by (auto simp: spread_string_def split: option.splits if_splits)

lemma set_spread_object:
  "(k, v) \<in> set (spread_object x (\<lambda>y. [(k', f y)])) \<Longrightarrow> k = k'"
  by (auto simp: spread_object_def split: option.splits if_splits)

lemma source_entry:
  "(''Source'', v) \<in> set (properties c oid) \<longleftrightarrow>
     v = Select (if source c = ''ios-contact'' then ''iOS Contact'' else source c)"
  by (auto simp: properties_def dest: set_spread_string set_spread_object)

text \<open>
  Claim C10. Every contact of a body the validator accepts has the source tag
  \<open>ios-contact\<close>, and its property set has the field \<open>Source\<close>, once, a select named
  \<open>iOS Contact\<close>. The schema puts the tag there when the key is missing, and rejects an
  element whose \<open>source\<close> is anything but the string \<open>ios-contact\<close>.
\<close>

theorem source_is_ios_contact:
  "(validate is_email j = Some valid \<and> c \<in> set valid
      \<longrightarrow> source c = ''ios-contact''
        \<and> map_of (properties c oid) ''Source'' = Some (Select ''iOS Contact'')
        \<and> (\<forall>v. (''Source'', v) \<in> set (properties c oid) \<longleftrightarrow> v = Select ''iOS Contact''))
   \<and> (get_field kvs ''source'' = None \<and> z_contact is_email (JObject kvs) = Some c'
      \<longrightarrow> source c' = ''ios-contact'')
   \<and> (get_field kvs ''source'' = Some v' \<and> v' \<noteq> JString ''ios-contact''
      \<longrightarrow> z_contact is_email (JObject kvs) = None)"
proof (intro conjI impI)
  assume a: "validate is_email j = Some valid \<and> c \<in> set valid"
  then obtain x where "z_contact is_email x = Some c"
    using validate_member by blast
  from z_contact_Some [OF this] have s: "source c = ''ios-contact''"
    using z_source_only by blast
  then show "source c = ''ios-contact''" .
  from s show "map_of (properties c oid) ''Source'' = Some (Select ''iOS Contact'')"
    by (simp add: source_lookup)
  from s show "\<forall>v. (''Source'', v) \<in> set (properties c oid) \<longleftrightarrow> v = Select ''iOS Contact''"
    by (simp add: source_entry)
next
  assume "get_field kvs ''source'' = None \<and> z_contact is_email (JObject kvs) = Some c'"
  then show "source c' = ''ios-contact''"
    using z_contact_Some z_source_only by blast
next
  assume a: "get_field kvs ''source'' = Some v' \<and> v' \<noteq> JString ''ios-contact''"
  show "z_contact is_email (JObject kvs) = None"
  proof (rule ccontr)
    assume "z_contact is_email (JObject kvs) \<noteq> None"
    then obtain c where "z_contact is_email (JObject kvs) = Some c" by blast
    from z_contact_Some [OF this] a
    have "z_default ''ios-contact'' (z_optional (z_enum [''ios-contact''])) (Some v') = Some (source c)"
      by auto
    with a show False
      by (auto simp: z_default_def z_optional_def z_enum_def split: option.splits json.splits if_splits)
  qed
qed

theorem source_is_ios_contact_witness:
  "validate (\<lambda>s. CHR ''@'' \<in> set s) (JArray [JObject [(''lastName'', JString ''Doe'')]])
     = Some [\<lparr>firstName = None, organization = None, lastName = ''Doe'', emails = None,
          addresses = None, phones = None, note_text = None, website = None,
          jobTitle = None, source = ''ios-contact''\<rparr>]
   \<and> map_of (properties \<lparr>firstName = None, organization = None, lastName = ''Doe'',
          emails = None, addresses = None, phones = None, note_text = None, website = None,
          jobTitle = None, source = ''ios-contact''\<rparr> None) ''Source''
     = Some (Select ''iOS Contact'')
   \<and> z_contact (\<lambda>s. CHR ''@'' \<in> set s)
        (JObject [(''lastName'', JString ''Doe''), (''source'', JString ''android'')]) = None"
proof -
  let ?is = "\<lambda>s. CHR ''@'' \<in> set s"
  let ?c = "\<lparr>firstName = None, organization = None, lastName = ''Doe'', emails = None,
      addresses = None, phones = None, note_text = None, website = None, jobTitle = None,
      source = ''ios-contact''\<rparr>"
  let ?kvs = "[(''lastName'', JString ''Doe''), (''source'', JString ''android'')]"
  have v: "validate ?is (JArray [JObject [(''lastName'', JString ''Doe'')]]) = Some [?c]"
    by (simp add: validate_def z_array_def z_contact_def get_field_def z_optional_def
        z_string_def z_default_def)
  have g: "get_field ?kvs ''source'' = Some (JString ''android'')"
    by (simp add: get_field_def)
  note t = source_is_ios_contact [where is_email = ?is
      and j = "JArray [JObject [(''lastName'', JString ''Doe'')]]" and valid = "[?c]"
      and c = ?c and oid = None and kvs = ?kvs and v' = "JString ''android''"]
  from t v have "map_of (properties ?c None) ''Source'' = Some (Select ''iOS Contact'')"
    by simp
  moreover from t g have "z_contact ?is (JObject ?kvs) = None"
    by simp
  ultimately show ?thesis using v by blast
qed

text \<open>The keys of the property set: each spread brings its own key at most once, so the
  keys are pairwise different and reading a key with \<open>map_of\<close> reads the object.\<close>

lemma truthy_iff: "truthy v \<longleftrightarrow> (\<exists>s. v = Some s \<and> s \<noteq> [])"
  by (simp add: truthy_def split: option.splits)

lemma keys_spread_string: "subseq (map fst (spread_string v (\<lambda>x. [(k, f x)]))) [k]"
  by (simp add: spread_string_def split: option.splits)

lemma keys_spread_object: "subseq (map fst (spread_object v (\<lambda>x. [(k, f x)]))) [k]"
  by (simp add: spread_object_def split: option.splits)

lemma subseq_distinct: "subseq xs ys \<Longrightarrow> distinct ys \<Longrightarrow> distinct xs"
  by (auto simp: subseq_conv_nths)

lemma subseq_keys: "subseq xs ys \<Longrightarrow> set xs \<subseteq> set ys"
  by (induction rule: list_emb.induct) auto

lemma properties_keys:
  "subseq (map fst (properties c oid))
     ([''Last Name''] @ [''First Name''] @ [''Email (Work)''] @ [''Email (Home)''] @ [''Main'']
      @ [''Work''] @ [''Mobile''] @ [''Home''] @ [''Address (Work)''] @ [''Address (Home)'']
      @ [''iOS Notes''] @ [''Website''] @ [''Job Title''] @ [''Organization''] @ [''Source''])"
  unfolding properties_def map_append
  by (intro list_emb_append_mono keys_spread_string keys_spread_object) simp_all

lemma properties_distinct: "distinct (map fst (properties c oid))"
  by (rule subseq_distinct [OF properties_keys]) simp

text \<open>
  Claim C2, as stated, fails: a first name that is present, but is the empty string, gives
  no \<open>First Name\<close> field, since \<open>firstName && {...}\<close> tests truthiness and not presence.
\<close>

theorem property_set_counterexample:
  "firstName \<lparr>firstName = Some [], organization = None, lastName = ''Doe'', emails = None,
      addresses = None, phones = None, note_text = None, website = None, jobTitle = None,
      source = ''ios-contact''\<rparr> \<noteq> None
   \<and> ''First Name'' \<notin> fst ` set (properties \<lparr>firstName = Some [], organization = None,
      lastName = ''Doe'', emails = None, addresses = None, phones = None, note_text = None,
      website = None, jobTitle = None, source = ''ios-contact''\<rparr> None)"
  by (simp add: properties_def spread_string_def spread_object_def workEmail_def homeEmail_def
      mainPhone_def workPhone_def mobilePhone_def homePhone_def workAddressData_def
      homeAddressData_def first_where_def)

text \<open>
  Claim C2, amended. \<open>Last Name\<close> and \<open>Source\<close> are always in the property set. A field
  whose source is a string (first name, selected work and home e-mail, selected main, work
  and mobile number, note, website, job title, organization name) is in the set exactly
  when that string is present and not empty, with its typed value (rich text, e-mail,
  phone number, url, relation). The \<open>Home\<close> phone and the two address fields are in the set
  exactly when an entry with that label was selected, whatever its content. The set has no
  other key, no key twice, and an omitted field is absent, not null.
\<close>

theorem property_set_fields:
  "map_of (properties c oid) ''Last Name'' = Some (Title [lastName c])
   \<and> (map_of (properties c oid) ''First Name'' = Some v \<longleftrightarrow>
        (\<exists>s. firstName c = Some s \<and> s \<noteq> [] \<and> v = RichText [s]))
   \<and> (map_of (properties c oid) ''Email (Work)'' = Some v \<longleftrightarrow>
        (\<exists>s. workEmail c = Some s \<and> s \<noteq> [] \<and> v = Email s))
   \<and> (map_of (properties c oid) ''Email (Home)'' = Some v \<longleftrightarrow>
        (\<exists>s. homeEmail c = Some s \<and> s \<noteq> [] \<and> v = Email s))
   \<and> (map_of (properties c oid) ''Main'' = Some v \<longleftrightarrow>
        (\<exists>s. mainPhone c = Some s \<and> s \<noteq> [] \<and> v = PhoneNumber s))
   \<and> (map_of (properties c oid) ''Work'' = Some v \<longleftrightarrow>
        (\<exists>s. workPhone c = Some s \<and> s \<noteq> [] \<and> v = PhoneNumber s))
   \<and> (map_of (properties c oid) ''Mobile'' = Some v \<longleftrightarrow>
        (\<exists>s. mobilePhone c = Some s \<and> s \<noteq> [] \<and> v = PhoneNumber s))
   \<and> (map_of (properties c oid) ''Home'' = Some v \<longleftrightarrow>
        (\<exists>p. homePhone c = Some p \<and> v = PhoneNumber (number p)))
   \<and> (map_of (properties c oid) ''Address (Work)'' = Some v \<longleftrightarrow>
        (\<exists>a. workAddressData c = Some a \<and> v = RichText [workAddress c]))
   \<and> (map_of (properties c oid) ''Address (Home)'' = Some v \<longleftrightarrow>
        (\<exists>a. homeAddressData c = Some a \<and> v = RichText [homeAddress c]))
   \<and> (map_of (properties c oid) ''iOS Notes'' = Some v \<longleftrightarrow>
        (\<exists>s. note_text c = Some s \<and> s \<noteq> [] \<and> v = RichText [s]))
   \<and> (map_of (properties c oid) ''Website'' = Some v \<longleftrightarrow>
        (\<exists>s. website c = Some s \<and> s \<noteq> [] \<and> v = Url s))
   \<and> (map_of (properties c oid) ''Job Title'' = Some v \<longleftrightarrow>
        (\<exists>s. jobTitle c = Some s \<and> s \<noteq> [] \<and> v = RichText [s]))
   \<and> (map_of (properties c oid) ''Organization'' = Some v \<longleftrightarrow>
        (\<exists>s. organization c = Some s \<and> s \<noteq> [] \<and> v = Relation [oid]))
   \<and> map_of (properties c oid) ''Source'' =
        Some (Select (if source c = ''ios-contact'' then ''iOS Contact'' else source c))
   \<and> fst ` set (properties c oid) \<subseteq>
        {''Last Name'', ''First Name'', ''Email (Work)'', ''Email (Home)'', ''Main'', ''Work'',
         ''Mobile'', ''Home'', ''Address (Work)'', ''Address (Home)'', ''iOS Notes'', ''Website'',
         ''Job Title'', ''Organization'', ''Source''}
   \<and> distinct (map fst (properties c oid))"
proof -
  note look = properties_def map_add_def map_of_spread_string map_of_spread_object truthy_iff
  have "set (map fst (properties c oid)) \<subseteq>
      set ([''Last Name''] @ [''First Name''] @ [''Email (Work)''] @ [''Email (Home)''] @ [''Main'']
      @ [''Work''] @ [''Mobile''] @ [''Home''] @ [''Address (Work)''] @ [''Address (Home)'']
      @ [''iOS Notes''] @ [''Website''] @ [''Job Title''] @ [''Organization''] @ [''Source''])"
    by (rule subseq_keys [OF properties_keys])
  then have keys: "fst ` set (properties c oid) \<subseteq>
        {''Last Name'', ''First Name'', ''Email (Work)'', ''Email (Home)'', ''Main'', ''Work'',
         ''Mobile'', ''Home'', ''Address (Work)'', ''Address (Home)'', ''iOS Notes'', ''Website'',
         ''Job Title'', ''Organization'', ''Source''}"
    by simp
  have k1: "map_of (properties c oid) ''Last Name'' = Some (Title [lastName c])"
    by (simp add: look)
  have k2: "map_of (properties c oid) ''First Name'' = Some v \<longleftrightarrow>
        (\<exists>s. firstName c = Some s \<and> s \<noteq> [] \<and> v = RichText [s])"
    by (auto simp: look)
  have k3: "map_of (properties c oid) ''Email (Work)'' = Some v \<longleftrightarrow>
        (\<exists>s. workEmail c = Some s \<and> s \<noteq> [] \<and> v = Email s)"
    by (auto simp: look)
  have k4: "map_of (properties c oid) ''Email (Home)'' = Some v \<longleftrightarrow>
        (\<exists>s. homeEmail c = Some s \<and> s \<noteq> [] \<and> v = Email s)"
    by (auto simp: look)
  have k5: "map_of (properties c oid) ''Main'' = Some v \<longleftrightarrow>
        (\<exists>s. mainPhone c = Some s \<and> s \<noteq> [] \<and> v = PhoneNumber s)"
    by (auto simp: look)
  have k6: "map_of (properties c oid) ''Work'' = Some v \<longleftrightarrow>
        (\<exists>s. workPhone c = Some s \<and> s \<noteq> [] \<and> v = PhoneNumber s)"
    by (auto simp: look)
  have k7: "map_of (properties c oid) ''Mobile'' = Some v \<longleftrightarrow>
        (\<exists>s. mobilePhone c = Some s \<and> s \<noteq> [] \<and> v = PhoneNumber s)"
    by (auto simp: look)
  have k8: "map_of (properties c oid) ''Home'' = Some v \<longleftrightarrow>
        (\<exists>p. homePhone c = Some p \<and> v = PhoneNumber (number p))"
    by (auto simp: look split: option.splits)
  have k9: "map_of (properties c oid) ''Address (Work)'' = Some v \<longleftrightarrow>
        (\<exists>a. workAddressData c = Some a \<and> v = RichText [workAddress c])"
    by (auto simp: look split: option.splits)
  have k10: "map_of (properties c oid) ''Address (Home)'' = Some v \<longleftrightarrow>
        (\<exists>a. homeAddressData c = Some a \<and> v = RichText [homeAddress c])"
    by (auto simp: look split: option.splits)
  have k11: "map_of (properties c oid) ''iOS Notes'' = Some v \<longleftrightarrow>
        (\<exists>s. note_text c = Some s \<and> s \<noteq> [] \<and> v = RichText [s])"
    by (auto simp: look)
  have k12: "map_of (properties c oid) ''Website'' = Some v \<longleftrightarrow>
        (\<exists>s. website c = Some s \<and> s \<noteq> [] \<and> v = Url s)"
    by (auto simp: look)
  have k13: "map_of (properties c oid) ''Job Title'' = Some v \<longleftrightarrow>
        (\<exists>s. jobTitle c = Some s \<and> s \<noteq> [] \<and> v = RichText [s])"
    by (auto simp: look)
  have k14: "map_of (properties c oid) ''Organization'' = Some v \<longleftrightarrow>
        (\<exists>s. organization c = Some s \<and> s \<noteq> [] \<and> v = Relation [oid])"
    by (auto simp: look)
  have k15: "map_of (properties c oid) ''Source'' =
        Some (Select (if source c = ''ios-contact'' then ''iOS Contact'' else source c))"
    by (simp add: look)
  show ?thesis
    by (intro conjI k1 k2 k3 k4 k5 k6 k7 k8 k9 k10 k11 k12 k13 k14 k15 keys properties_distinct)
qed

theorem property_set_fields_witness:
  "map_of (properties \<lparr>firstName = Some ''Jane'', organization = Some ''ACME'',
       lastName = ''Doe'', emails = None, addresses = None,
       phones = Some [\<lparr>phone_label = ''Home'', number = []\<rparr>],
       note_text = Some [], website = None, jobTitle = None, source = ''ios-contact''\<rparr>
       (Some ''org-7'')) ''First Name'' = Some (RichText [''Jane''])
   \<and> map_of (properties \<lparr>firstName = Some ''Jane'', organization = Some ''ACME'',
       lastName = ''Doe'', emails = None, addresses = None,
       phones = Some [\<lparr>phone_label = ''Home'', number = []\<rparr>],
       note_text = Some [], website = None, jobTitle = None, source = ''ios-contact''\<rparr>
       (Some ''org-7'')) ''Home'' = Some (PhoneNumber [])
   \<and> map_of (properties \<lparr>firstName = Some ''Jane'', organization = Some ''ACME'',
       lastName = ''Doe'', emails = None, addresses = None,
       phones = Some [\<lparr>phone_label = ''Home'', number = []\<rparr>],
       note_text = Some [], website = None, jobTitle = None, source = ''ios-contact''\<rparr>
       (Some ''org-7'')) ''iOS Notes'' \<noteq> Some (RichText [[]])"
proof -
  let ?c = "\<lparr>firstName = Some ''Jane'', organization = Some ''ACME'',
       lastName = ''Doe'', emails = None, addresses = None,
       phones = Some [\<lparr>phone_label = ''Home'', number = []\<rparr>],
       note_text = Some [], website = None, jobTitle = None, source = ''ios-contact''\<rparr>"
  have h: "homePhone ?c = Some \<lparr>phone_label = ''Home'', number = []\<rparr>"
    by (simp add: homePhone_def first_where_def)
  from property_set_fields [where c = ?c and oid = "Some ''org-7''" and v = "RichText [''Jane'']"]
  have "map_of (properties ?c (Some ''org-7'')) ''First Name'' = Some (RichText [''Jane''])"
    by simp
  moreover
  from property_set_fields [where c = ?c and oid = "Some ''org-7''" and v = "PhoneNumber []"] h
  have "map_of (properties ?c (Some ''org-7'')) ''Home'' = Some (PhoneNumber [])"
    by simp
  moreover
  from property_set_fields [where c = ?c and oid = "Some ''org-7''" and v = "RichText [[]]"]
  have "map_of (properties ?c (Some ''org-7'')) ''iOS Notes'' \<noteq> Some (RichText [[]])"
    by simp
  ultimately show ?thesis by blast
qed

section \<open>Properties of the field normalizer\<close>

text \<open>\<open>xs?.filter(p)[0]\<close> is the first element of \<open>xs\<close> that satisfies \<open>p\<close>.\<close>

lemma first_where_find: "first_where p (Some ys) = find p ys"
  by (induction ys) (simp_all add: first_where_def)

lemma first_where_Some_iff:
  "first_where p xs = Some x \<longleftrightarrow>
     (\<exists>ys i. xs = Some ys \<and> i < length ys \<and> p (ys ! i) \<and> x = ys ! i \<and> (\<forall>j<i. \<not> p (ys ! j)))"
proof (cases xs)
  case None
  then show ?thesis by (simp add: first_where_def)
next
  case (Some ys)
  then show ?thesis by (simp add: first_where_find find_Some_iff)
qed

lemma first_where_None_iff:
  "first_where p xs = None \<longleftrightarrow> (\<forall>ys. xs = Some ys \<longrightarrow> (\<forall>y \<in> set ys. \<not> p y))"
proof (cases xs)
  case None
  then show ?thesis by (simp add: first_where_def)
next
  case (Some ys)
  then show ?thesis by (auto simp: first_where_find find_None_iff)
qed

lemma map_first_where_Some_iff:
  "map_option f (first_where p xs) = Some v \<longleftrightarrow>
     (\<exists>ys i. xs = Some ys \<and> i < length ys \<and> p (ys ! i) \<and> v = f (ys ! i) \<and> (\<forall>j<i. \<not> p (ys ! j)))"
  unfolding map_option_eq_Some first_where_Some_iff by blast

text \<open>
  Claim C3. Each value selected from the e-mails and the phones is the value of the first
  entry, in the order of the input array, whose label matches; a selection is there exactly
  when some entry matches, so later entries with a matching label are dropped. The mobile
  number comes from the first phone labelled \<open>iPhone\<close> or \<open>Mobile\<close>: for phones that start
  with an \<open>iPhone\<close> entry followed by a \<open>Mobile\<close> entry, it is the number of the \<open>iPhone\<close>
  entry.
\<close>

theorem first_match_selection:
  "(workEmail c = Some v \<longleftrightarrow>
      (\<exists>es i. emails c = Some es \<and> i < length es \<and> email_label (es ! i) = ''Work''
         \<and> v = email (es ! i) \<and> (\<forall>j<i. email_label (es ! j) \<noteq> ''Work'')))
   \<and> (homeEmail c = Some v \<longleftrightarrow>
      (\<exists>es i. emails c = Some es \<and> i < length es \<and> email_label (es ! i) = ''Home''
         \<and> v = email (es ! i) \<and> (\<forall>j<i. email_label (es ! j) \<noteq> ''Home'')))
   \<and> (mainPhone c = Some v \<longleftrightarrow>
      (\<exists>ps i. phones c = Some ps \<and> i < length ps \<and> phone_label (ps ! i) = ''Main''
         \<and> v = number (ps ! i) \<and> (\<forall>j<i. phone_label (ps ! j) \<noteq> ''Main'')))
   \<and> (workPhone c = Some v \<longleftrightarrow>
      (\<exists>ps i. phones c = Some ps \<and> i < length ps \<and> phone_label (ps ! i) = ''Work''
         \<and> v = number (ps ! i) \<and> (\<forall>j<i. phone_label (ps ! j) \<noteq> ''Work'')))
   \<and> (mobilePhone c = Some v \<longleftrightarrow>
      (\<exists>ps i. phones c = Some ps \<and> i < length ps
         \<and> (phone_label (ps ! i) = ''iPhone'' \<or> phone_label (ps ! i) = ''Mobile'')
         \<and> v = number (ps ! i)
         \<and> (\<forall>j<i. phone_label (ps ! j) \<noteq> ''iPhone'' \<and> phone_label (ps ! j) \<noteq> ''Mobile'')))
   \<and> (map_option number (homePhone c) = Some v \<longleftrightarrow>
      (\<exists>ps i. phones c = Some ps \<and> i < length ps \<and> phone_label (ps ! i) = ''Home''
         \<and> v = number (ps ! i) \<and> (\<forall>j<i. phone_label (ps ! j) \<noteq> ''Home'')))
   \<and> (phones c = Some (p1 # p2 # rest) \<and> phone_label p1 = ''iPhone'' \<and> phone_label p2 = ''Mobile''
        \<longrightarrow> mobilePhone c = Some (number p1))"
proof (intro conjI impI)
  show "workEmail c = Some v \<longleftrightarrow>
      (\<exists>es i. emails c = Some es \<and> i < length es \<and> email_label (es ! i) = ''Work''
         \<and> v = email (es ! i) \<and> (\<forall>j<i. email_label (es ! j) \<noteq> ''Work''))"
    unfolding workEmail_def by (rule map_first_where_Some_iff)
  show "homeEmail c = Some v \<longleftrightarrow>
      (\<exists>es i. emails c = Some es \<and> i < length es \<and> email_label (es ! i) = ''Home''
         \<and> v = email (es ! i) \<and> (\<forall>j<i. email_label (es ! j) \<noteq> ''Home''))"
    unfolding homeEmail_def by (rule map_first_where_Some_iff)
  show "mainPhone c = Some v \<longleftrightarrow>
      (\<exists>ps i. phones c = Some ps \<and> i < length ps \<and> phone_label (ps ! i) = ''Main''
         \<and> v = number (ps ! i) \<and> (\<forall>j<i. phone_label (ps ! j) \<noteq> ''Main''))"
    unfolding mainPhone_def by (rule map_first_where_Some_iff)
  show "workPhone c = Some v \<longleftrightarrow>
      (\<exists>ps i. phones c = Some ps \<and> i < length ps \<and> phone_label (ps ! i) = ''Work''
         \<and> v = number (ps ! i) \<and> (\<forall>j<i. phone_label (ps ! j) \<noteq> ''Work''))"
    unfolding workPhone_def by (rule map_first_where_Some_iff)
  have mem: "(l \<in> set [''iPhone'', ''Mobile'']) = (l = ''iPhone'' \<or> l = ''Mobile'')" for l :: string
    by auto
  show "mobilePhone c = Some v \<longleftrightarrow>
      (\<exists>ps i. phones c = Some ps \<and> i < length ps
         \<and> (phone_label (ps ! i) = ''iPhone'' \<or> phone_label (ps ! i) = ''Mobile'')
         \<and> v = number (ps ! i)
         \<and> (\<forall>j<i. phone_label (ps ! j) \<noteq> ''iPhone'' \<and> phone_label (ps ! j) \<noteq> ''Mobile''))"
    unfolding mobilePhone_def map_first_where_Some_iff mem de_Morgan_disj ..
  show "map_option number (homePhone c) = Some v \<longleftrightarrow>
      (\<exists>ps i. phones c = Some ps \<and> i < length ps \<and> phone_label (ps ! i) = ''Home''
         \<and> v = number (ps ! i) \<and> (\<forall>j<i. phone_label (ps ! j) \<noteq> ''Home''))"
    unfolding homePhone_def by (rule map_first_where_Some_iff)
next
  assume "phones c = Some (p1 # p2 # rest) \<and> phone_label p1 = ''iPhone'' \<and> phone_label p2 = ''Mobile''"
  then show "mobilePhone c = Some (number p1)"
    by (simp add: mobilePhone_def first_where_def)
qed

theorem first_match_selection_witness:
  "mobilePhone \<lparr>firstName = None, organization = None, lastName = ''Doe'', emails = None,
      addresses = None,
      phones = Some [\<lparr>phone_label = ''iPhone'', number = ''+33 1''\<rparr>,
                     \<lparr>phone_label = ''Mobile'', number = ''+33 2''\<rparr>],
      note_text = None, website = None, jobTitle = None, source = ''ios-contact''\<rparr>
   = Some ''+33 1''"
  using first_match_selection [where c = "\<lparr>firstName = None, organization = None,
      lastName = ''Doe'', emails = None, addresses = None,
      phones = Some [\<lparr>phone_label = ''iPhone'', number = ''+33 1''\<rparr>,
                     \<lparr>phone_label = ''Mobile'', number = ''+33 2''\<rparr>],
      note_text = None, website = None, jobTitle = None, source = ''ios-contact''\<rparr>"
      and ?p1.0 = "\<lparr>phone_label = ''iPhone'', number = ''+33 1''\<rparr>"
      and ?p2.0 = "\<lparr>phone_label = ''Mobile'', number = ''+33 2''\<rparr>" and rest = "[]"]
  by simp

text \<open>The four appends of \<open>address_text\<close>, one sub-field at a time.\<close>

lemma add_part_append: "add_part acc v = acc @ add_part [] v"
  by (simp add: add_part_def split: option.splits)

lemma address_text_Some:
  "address_text (Some a) =
     add_part [] (street a) @ add_part [] (zip a) @ add_part [] (city a) @ add_part [] (country a)"
proof -
  have "address_text (Some a) =
      add_part (add_part (add_part (add_part [] (street a)) (zip a)) (city a)) (country a)"
    by (simp add: address_text_def)
  also have "\<dots> = add_part (add_part (add_part [] (street a)) (zip a)) (city a)
      @ add_part [] (country a)"
    by (rule add_part_append)
  also have "add_part (add_part (add_part [] (street a)) (zip a)) (city a)
      = add_part (add_part [] (street a)) (zip a) @ add_part [] (city a)"
    by (rule add_part_append)
  also have "add_part (add_part [] (street a)) (zip a)
      = add_part [] (street a) @ add_part [] (zip a)"
    by (rule add_part_append)
  finally show ?thesis by simp
qed

lemma add_part_Nil:
  "add_part [] f = (case f of None \<Rightarrow> [] | Some s \<Rightarrow> if s \<noteq> [] then s @ '' '' else [])"
  by (simp add: add_part_def split: option.splits)

lemma add_part_spec:
  "Some [] \<noteq> f \<Longrightarrow> add_part [] f = (case f of None \<Rightarrow> [] | Some s \<Rightarrow> s @ '' '')"
  by (auto simp: add_part_def split: option.splits)

text \<open>
  Claim C4, as stated, fails when a sub-field is present and empty: the code tests the
  truthiness of each sub-field, so an empty city brings no space, where the specified
  string has one.
\<close>

theorem address_text_counterexample:
  "workAddressData \<lparr>firstName = None, organization = None, lastName = ''Doe'', emails = None,
      addresses = Some [Some \<lparr>city = Some [], street = None, country = Some ''France'',
                               zip = None, state = None, address_label = Some ''Work''\<rparr>],
      phones = None, note_text = None, website = None, jobTitle = None,
      source = ''ios-contact''\<rparr>
     = Some \<lparr>city = Some [], street = None, country = Some ''France'', zip = None,
             state = None, address_label = Some ''Work''\<rparr>
   \<and> workAddress \<lparr>firstName = None, organization = None, lastName = ''Doe'', emails = None,
      addresses = Some [Some \<lparr>city = Some [], street = None, country = Some ''France'',
                               zip = None, state = None, address_label = Some ''Work''\<rparr>],
      phones = None, note_text = None, website = None, jobTitle = None,
      source = ''ios-contact''\<rparr> = ''France ''
   \<and> spec_address_text \<lparr>city = Some [], street = None, country = Some ''France'', zip = None,
             state = None, address_label = Some ''Work''\<rparr> = '' France ''
   \<and> workAddress \<lparr>firstName = None, organization = None, lastName = ''Doe'', emails = None,
      addresses = Some [Some \<lparr>city = Some [], street = None, country = Some ''France'',
                               zip = None, state = None, address_label = Some ''Work''\<rparr>],
      phones = None, note_text = None, website = None, jobTitle = None,
      source = ''ios-contact''\<rparr>
     \<noteq> spec_address_text \<lparr>city = Some [], street = None, country = Some ''France'', zip = None,
             state = None, address_label = Some ''Work''\<rparr>"
  by (simp add: workAddress_def workAddressData_def first_where_def has_label_def
      address_text_def add_part_def spec_address_text_def)

text \<open>
  Claim C4, amended. For the selected work or home address, the display string is the
  concatenation, in the order street, zip, city, country, of each sub-field that is present
  and not empty followed by a space; an absent or empty sub-field brings nothing. When no
  sub-field is the empty string this is the specified string. For an address with only a
  city and a country, both not empty, the string is the city, a space, the country, a
  space.
\<close>

theorem address_text_nonempty_parts:
  "(workAddressData c = Some a \<longrightarrow>
      workAddress c =
        concat (map (\<lambda>f. case f of None \<Rightarrow> [] | Some s \<Rightarrow> if s \<noteq> [] then s @ '' '' else [])
          [street a, zip a, city a, country a]))
   \<and> (homeAddressData c = Some a \<longrightarrow>
      homeAddress c =
        concat (map (\<lambda>f. case f of None \<Rightarrow> [] | Some s \<Rightarrow> if s \<noteq> [] then s @ '' '' else [])
          [street a, zip a, city a, country a]))
   \<and> (workAddressData c = Some a \<and> Some [] \<notin> set [street a, zip a, city a, country a]
        \<longrightarrow> workAddress c = spec_address_text a)
   \<and> (homeAddressData c = Some a \<and> Some [] \<notin> set [street a, zip a, city a, country a]
        \<longrightarrow> homeAddress c = spec_address_text a)
   \<and> (workAddressData c = Some a \<and> street a = None \<and> zip a = None
        \<and> city a = Some ci \<and> ci \<noteq> [] \<and> country a = Some co \<and> co \<noteq> []
        \<longrightarrow> workAddress c = ci @ '' '' @ co @ '' '')
   \<and> (homeAddressData c = Some a \<and> street a = None \<and> zip a = None
        \<and> city a = Some ci \<and> ci \<noteq> [] \<and> country a = Some co \<and> co \<noteq> []
        \<longrightarrow> homeAddress c = ci @ '' '' @ co @ '' '')"
proof -
  have parts: "address_text (Some a) =
      concat (map (\<lambda>f. case f of None \<Rightarrow> [] | Some s \<Rightarrow> if s \<noteq> [] then s @ '' '' else [])
        [street a, zip a, city a, country a])"
    by (simp add: address_text_Some add_part_Nil)
  have spec: "address_text (Some a) = spec_address_text a"
    if "Some [] \<notin> set [street a, zip a, city a, country a]"
    using that by (simp add: address_text_Some spec_address_text_def add_part_spec)
  have two: "address_text (Some a) = ci @ '' '' @ co @ '' ''"
    if "street a = None" "zip a = None" "city a = Some ci" "ci \<noteq> []"
      "country a = Some co" "co \<noteq> []"
    using that by (simp add: address_text_Some add_part_def)
  show ?thesis
    unfolding workAddress_def homeAddress_def
    using parts spec two by presburger
qed

theorem address_text_nonempty_parts_witness:
  "workAddress \<lparr>firstName = None, organization = None, lastName = ''Doe'', emails = None,
      addresses = Some [Some \<lparr>city = Some ''Lyon'', street = None, country = Some ''France'',
                               zip = None, state = None, address_label = Some ''Home''\<rparr>,
                        Some \<lparr>city = Some ''Paris'', street = Some ''1 rue de la Paix'',
                               country = Some ''France'', zip = Some ''75002'', state = None,
                               address_label = Some ''Work''\<rparr>],
      phones = None, note_text = None, website = None, jobTitle = None,
      source = ''ios-contact''\<rparr> = ''1 rue de la Paix 75002 Paris France ''
   \<and> homeAddress \<lparr>firstName = None, organization = None, lastName = ''Doe'', emails = None,
      addresses = Some [Some \<lparr>city = Some ''Lyon'', street = None, country = Some ''France'',
                               zip = None, state = None, address_label = Some ''Home''\<rparr>,
                        Some \<lparr>city = Some ''Paris'', street = Some ''1 rue de la Paix'',
                               country = Some ''France'', zip = Some ''75002'', state = None,
                               address_label = Some ''Work''\<rparr>],
      phones = None, note_text = None, website = None, jobTitle = None,
      source = ''ios-contact''\<rparr> = ''Lyon France ''"
proof -
  let ?h = "\<lparr>city = Some ''Lyon'', street = None, country = Some ''France'',
      zip = None, state = None, address_label = Some ''Home''\<rparr>"
  let ?w = "\<lparr>city = Some ''Paris'', street = Some ''1 rue de la Paix'',
      country = Some ''France'', zip = Some ''75002'', state = None,
      address_label = Some ''Work''\<rparr>"
  let ?c = "\<lparr>firstName = None, organization = None, lastName = ''Doe'', emails = None,
      addresses = Some [Some ?h, Some ?w], phones = None, note_text = None, website = None,
      jobTitle = None, source = ''ios-contact''\<rparr>"
  have dw: "workAddressData ?c = Some ?w"
    by (simp add: workAddressData_def first_where_def has_label_def)
  have dh: "homeAddressData ?c = Some ?h"
    by (simp add: homeAddressData_def first_where_def has_label_def)
  from address_text_nonempty_parts [where c = ?c and a = ?w] dw
  have "workAddress ?c = ''1 rue de la Paix 75002 Paris France ''"
    by simp
  moreover
  from address_text_nonempty_parts [where c = ?c and a = ?h and ci = "''Lyon''"
      and co = "''France''"] dh
  have "homeAddress ?c = ''Lyon France ''"
    by simp
  ultimately show ?thesis by blast
qed

section \<open>Properties of the organization resolver\<close>

lemma organization_lookup:
  "map_of (properties c oid) ''Organization'' =
     (if truthy (organization c) then Some (Relation [oid]) else None)"
  by (simp add: properties_def map_add_def map_of_spread_string map_of_spread_object)

text \<open>
  Claim C5, as stated, fails for an organization name that is present and empty: no lookup
  is made, since \<open>if (organization)\<close> tests truthiness.
\<close>

theorem organization_counterexample:
  "organization \<lparr>firstName = None, organization = Some [], lastName = ''Doe'', emails = None,
      addresses = None, phones = None, note_text = None, website = None, jobTitle = None,
      source = ''ios-contact''\<rparr> \<noteq> None
   \<and> resolve_organization \<lparr>organizations = ''orgs'', contacts = ''people''\<rparr>
        (scripted_client (\<lambda>db. []) ''p1'')
        (organization \<lparr>firstName = None, organization = Some [], lastName = ''Doe'',
           emails = None, addresses = None, phones = None, note_text = None, website = None,
           jobTitle = None, source = ''ios-contact''\<rparr>) (0, [])
     = (Inr None, (0, []))"
  by (simp add: resolve_organization_def)

text \<open>
  Claim C5, amended. When the organization name is absent or empty, the resolver makes no
  call and gives no identifier, and the property set has no \<open>Organization\<close> field. When it
  is present and not empty, the organizations collection is queried for the title equal to
  the name; if the query has results, the identifier is the first result's and nothing
  else is called; if it has none, an organization page with that title is created and the
  identifier is the new page's. The \<open>Organization\<close> relation of the property set built with
  that identifier points to exactly it.
\<close>

theorem organization_resolution:
  "(organization c = None \<or> organization c = Some []
      \<longrightarrow> resolve_organization ids cl (organization c) w = (Inr None, w)
        \<and> map_of (properties c oid) ''Organization'' = None)
   \<and> (organization c = Some name \<and> name \<noteq> []
       \<and> databases_query cl (organizations ids) (TitleEquals ''Name'' name) s = (Inr (r # others), s1)
      \<longrightarrow> resolve_organization ids cl (organization c) (s, calls) =
            (Inr (Some r),
             (s1, calls @ [DatabasesQuery (organizations ids) (TitleEquals ''Name'' name)]))
        \<and> map_of (properties c (Some r)) ''Organization'' = Some (Relation [Some r]))
   \<and> (organization c = Some name \<and> name \<noteq> []
       \<and> databases_query cl (organizations ids) (TitleEquals ''Name'' name) s = (Inr [], s1)
       \<and> pages_create cl (organizations ids) [(''Name'', Title [name])] s1 = (Inr new_id, s2)
      \<longrightarrow> resolve_organization ids cl (organization c) (s, calls) =
            (Inr (Some new_id),
             (s2, calls @ [DatabasesQuery (organizations ids) (TitleEquals ''Name'' name),
                           PagesCreate (organizations ids) [(''Name'', Title [name])]]))
        \<and> map_of (properties c (Some new_id)) ''Organization'' = Some (Relation [Some new_id]))"
proof (intro conjI impI)
  assume a: "organization c = None \<or> organization c = Some []"
  then show "resolve_organization ids cl (organization c) w = (Inr None, w)"
    by (auto simp: resolve_organization_def)
  from a show "map_of (properties c oid) ''Organization'' = None"
    by (auto simp: organization_lookup truthy_def)
next
  assume a: "organization c = Some name \<and> name \<noteq> []
       \<and> databases_query cl (organizations ids) (TitleEquals ''Name'' name) s = (Inr (r # others), s1)"
  then show "resolve_organization ids cl (organization c) (s, calls) =
            (Inr (Some r),
             (s1, calls @ [DatabasesQuery (organizations ids) (TitleEquals ''Name'' name)]))"
    by (simp add: resolve_organization_def query_def)
  from a show "map_of (properties c (Some r)) ''Organization'' = Some (Relation [Some r])"
    by (simp add: organization_lookup truthy_def)
next
  assume a: "organization c = Some name \<and> name \<noteq> []
       \<and> databases_query cl (organizations ids) (TitleEquals ''Name'' name) s = (Inr [], s1)
       \<and> pages_create cl (organizations ids) [(''Name'', Title [name])] s1 = (Inr new_id, s2)"
  then show "resolve_organization ids cl (organization c) (s, calls) =
            (Inr (Some new_id),
             (s2, calls @ [DatabasesQuery (organizations ids) (TitleEquals ''Name'' name),
                           PagesCreate (organizations ids) [(''Name'', Title [name])]]))"
    by (simp add: resolve_organization_def query_def create_def)
  from a show "map_of (properties c (Some new_id)) ''Organization'' = Some (Relation [Some new_id])"
    by (simp add: organization_lookup truthy_def)
qed

theorem organization_resolution_witness:
  "resolve_organization \<lparr>organizations = ''orgs'', contacts = ''people''\<rparr>
       (scripted_client (\<lambda>db. [''org-7'', ''org-9'']) ''new-1'') (Some ''ACME'') (0, [])
     = (Inr (Some ''org-7''), (0, [DatabasesQuery ''orgs'' (TitleEquals ''Name'' ''ACME'')]))
   \<and> resolve_organization \<lparr>organizations = ''orgs'', contacts = ''people''\<rparr>
       (scripted_client (\<lambda>db. []) ''new-1'') (Some ''ACME'') (0, [])
     = (Inr (Some ''new-1''),
        (Suc 0, [DatabasesQuery ''orgs'' (TitleEquals ''Name'' ''ACME''),
                 PagesCreate ''orgs'' [(''Name'', Title [''ACME''])]]))
   \<and> map_of (properties \<lparr>firstName = None, organization = Some ''ACME'', lastName = ''Doe'',
         emails = None, addresses = None, phones = None, note_text = None, website = None,
         jobTitle = None, source = ''ios-contact''\<rparr> (Some ''new-1'')) ''Organization''
     = Some (Relation [Some ''new-1''])
   \<and> resolve_organization \<lparr>organizations = ''orgs'', contacts = ''people''\<rparr>
       (scripted_client (\<lambda>db. [''org-7'', ''org-9'']) ''new-1'') None (0, [])
     = (Inr None, (0, []))
   \<and> map_of (properties \<lparr>firstName = None, organization = None, lastName = ''Doe'',
         emails = None, addresses = None, phones = None, note_text = None, website = None,
         jobTitle = None, source = ''ios-contact''\<rparr> None) ''Organization''
     = None"
proof -
  let ?ids = "\<lparr>organizations = ''orgs'', contacts = ''people''\<rparr>"
  let ?c1 = "\<lparr>firstName = None, organization = Some ''ACME'', lastName = ''Doe'',
      emails = None, addresses = None, phones = None, note_text = None, website = None,
      jobTitle = None, source = ''ios-contact''\<rparr>"
  let ?c2 = "\<lparr>firstName = None, organization = None, lastName = ''Doe'',
      emails = None, addresses = None, phones = None, note_text = None, website = None,
      jobTitle = None, source = ''ios-contact''\<rparr>"
  let ?cl1 = "scripted_client (\<lambda>db. [''org-7'', ''org-9'']) ''new-1''"
  let ?cl2 = "scripted_client (\<lambda>db. []) ''new-1''"
  have q1: "databases_query ?cl1 (organizations ?ids) (TitleEquals ''Name'' ''ACME'') 0
      = (Inr (''org-7'' # [''org-9'']), 0)"
    by (simp add: scripted_client_def)
  have q2: "databases_query ?cl2 (organizations ?ids) (TitleEquals ''Name'' ''ACME'') 0
      = (Inr [], 0)"
    by (simp add: scripted_client_def)
  have w2: "pages_create ?cl2 (organizations ?ids) [(''Name'', Title [''ACME''])] 0
      = (Inr ''new-1'', Suc 0)"
    by (simp add: scripted_client_def)
  note t1 = organization_resolution [where c = ?c1 and ids = ?ids and cl = ?cl1
      and name = "''ACME''" and s = 0 and r = "''org-7''" and others = "[''org-9'']"
      and ?s1.0 = 0 and calls = "[]"]
  note t2 = organization_resolution [where c = ?c1 and ids = ?ids and cl = ?cl2
      and name = "''ACME''" and s = 0 and ?s1.0 = 0 and new_id = "''new-1''"
      and ?s2.0 = "Suc 0" and calls = "[]"]
  note t3 = organization_resolution [where c = ?c2 and ids = ?ids and cl = ?cl1
      and w = "(0, [])" and oid = None]
  from t1 q1 have "resolve_organization ?ids ?cl1 (Some ''ACME'') (0, [])
      = (Inr (Some ''org-7''), (0, [DatabasesQuery ''orgs'' (TitleEquals ''Name'' ''ACME'')]))"
    by simp
  moreover from t2 q2 w2 have "resolve_organization ?ids ?cl2 (Some ''ACME'') (0, [])
      = (Inr (Some ''new-1''),
         (Suc 0, [DatabasesQuery ''orgs'' (TitleEquals ''Name'' ''ACME''),
                  PagesCreate ''orgs'' [(''Name'', Title [''ACME''])]]))
     \<and> map_of (properties ?c1 (Some ''new-1'')) ''Organization'' = Some (Relation [Some ''new-1''])"
    by simp
  moreover from t3 have "resolve_organization ?ids ?cl1 None (0, []) = (Inr None, (0, []))
     \<and> map_of (properties ?c2 None) ''Organization'' = None"
    by simp
  ultimately show ?thesis by blast
qed

section \<open>Properties of the contact upserter\<close>

text \<open>
  Claim C1. Once the organization is resolved, the handler queries the contacts collection
  with the filter: \<open>Last Name\<close> equals the last name, and \<open>First Name\<close> equals the first name
  or the empty string when there is none. With no result, it creates a page in the contacts
  collection with the whole property set and answers 201, \<open>Successfully created contact\<close>,
  with the new page's identifier. With results, it updates the first result, and no other,
  with the property set, and answers 200, \<open>Successfully updated contact\<close>, with the
  identifier the update answered: the first result's, for a store that answers an update
  with the page it updated, as Notion does.
\<close>

theorem contact_upsert:
  assumes "resolve_organization ids cl (organization c) w = (Inr oid, (s1, calls1))"
    and "databases_query cl (contacts ids)
           (And [TitleEquals ''Last Name'' (lastName c),
                 RichTextEquals ''First Name'' (case firstName c of None \<Rightarrow> [] | Some f \<Rightarrow> f)])
           s1 = (Inr results, s2)"
  shows "(results = []
          \<and> pages_create cl (contacts ids) (properties c oid) s2 = (Inr new_id, s3)
        \<longrightarrow> ios_contact ids cl (c # rest) w =
            (Inr \<lparr>status = 201, body = JsonBody (json_object
                   [(''message'', Some (JString ''Successfully created contact'')),
                    (''pageId'', Some (JString new_id)),
                    (''firstName'', map_option JString (firstName c)),
                    (''lastName'', Some (JString (lastName c)))])\<rparr>,
             (s3, calls1 @
               [DatabasesQuery (contacts ids)
                  (And [TitleEquals ''Last Name'' (lastName c),
                        RichTextEquals ''First Name''
                          (case firstName c of None \<Rightarrow> [] | Some f \<Rightarrow> f)]),
                PagesCreate (contacts ids) (properties c oid)])))
       \<and> (results = r # others
          \<and> pages_update cl r (properties c oid) s2 = (Inr pid, s3)
        \<longrightarrow> ios_contact ids cl (c # rest) w =
            (Inr \<lparr>status = 200, body = JsonBody (json_object
                   [(''message'', Some (JString ''Successfully updated contact'')),
                    (''firstName'', map_option JString (firstName c)),
                    (''lastName'', Some (JString (lastName c))),
                    (''pageId'', Some (JString pid))])\<rparr>,
             (s3, calls1 @
               [DatabasesQuery (contacts ids)
                  (And [TitleEquals ''Last Name'' (lastName c),
                        RichTextEquals ''First Name''
                          (case firstName c of None \<Rightarrow> [] | Some f \<Rightarrow> f)]),
                PagesUpdate r (properties c oid)])))
       \<and> (results = r # others
          \<and> pages_update cl r (properties c oid) s2 = (Inr r, s3)
        \<longrightarrow> ios_contact ids cl (c # rest) w =
            (Inr \<lparr>status = 200, body = JsonBody (json_object
                   [(''message'', Some (JString ''Successfully updated contact'')),
                    (''firstName'', map_option JString (firstName c)),
                    (''lastName'', Some (JString (lastName c))),
                    (''pageId'', Some (JString r))])\<rparr>,
             (s3, calls1 @
               [DatabasesQuery (contacts ids)
                  (And [TitleEquals ''Last Name'' (lastName c),
                        RichTextEquals ''First Name''
                          (case firstName c of None \<Rightarrow> [] | Some f \<Rightarrow> f)]),
                PagesUpdate r (properties c oid)])))"
proof -
  let ?f = "And [TitleEquals ''Last Name'' (lastName c),
      RichTextEquals ''First Name'' (case firstName c of None \<Rightarrow> [] | Some f \<Rightarrow> f)]"
  have q: "query cl (contacts ids) (contact_filter c) (s1, calls1) =
      (Inr results, (s2, calls1 @ [DatabasesQuery (contacts ids) ?f]))"
    using assms(2) by (simp add: query_def contact_filter_def)
  have created: "ios_contact ids cl (c # rest) w =
      (Inr (created_response c new_id),
       (s3, calls1 @ [DatabasesQuery (contacts ids) ?f, PagesCreate (contacts ids) (properties c oid)]))"
    if "results = []" "pages_create cl (contacts ids) (properties c oid) s2 = (Inr new_id, s3)"
    using that assms(1) q by (simp add: ios_contact_def create_def)
  have updated: "ios_contact ids cl (c # rest) w =
      (Inr (updated_response c p),
       (s3, calls1 @ [DatabasesQuery (contacts ids) ?f, PagesUpdate r (properties c oid)]))"
    if "results = r # others" "pages_update cl r (properties c oid) s2 = (Inr p, s3)" for p
    using that assms(1) q by (simp add: ios_contact_def update_def)
  show ?thesis
    using created updated [of pid] updated [of r]
    by (simp add: created_response_def updated_response_def)
qed

theorem contact_upsert_witness:
  "ios_contact \<lparr>organizations = ''orgs'', contacts = ''people''\<rparr>
       (scripted_client (\<lambda>db. []) ''new-1'')
       [\<lparr>firstName = Some ''Jane'', organization = None, lastName = ''Doe'', emails = None,
         addresses = None, phones = None, note_text = None, website = None, jobTitle = None,
         source = ''ios-contact''\<rparr>] (0, [])
     = (Inr \<lparr>status = 201, body = JsonBody (JObject
              [(''message'', JString ''Successfully created contact''),
               (''pageId'', JString ''new-1''),
               (''firstName'', JString ''Jane''),
               (''lastName'', JString ''Doe'')])\<rparr>,
        (Suc 0,
         [DatabasesQuery ''people''
            (And [TitleEquals ''Last Name'' ''Doe'', RichTextEquals ''First Name'' ''Jane'']),
          PagesCreate ''people''
            [(''Last Name'', Title [''Doe'']), (''First Name'', RichText [''Jane'']),
             (''Source'', Select ''iOS Contact'')]]))
   \<and> ios_contact \<lparr>organizations = ''orgs'', contacts = ''people''\<rparr>
       (scripted_client (\<lambda>db. [''abc123'', ''def456'']) ''new-1'')
       [\<lparr>firstName = None, organization = None, lastName = ''Doe'', emails = None,
         addresses = None, phones = None, note_text = None, website = None, jobTitle = None,
         source = ''ios-contact''\<rparr>] (0, [])
     = (Inr \<lparr>status = 200, body = JsonBody (JObject
              [(''message'', JString ''Successfully updated contact''),
               (''lastName'', JString ''Doe''),
               (''pageId'', JString ''abc123'')])\<rparr>,
        (Suc 0,
         [DatabasesQuery ''people''
            (And [TitleEquals ''Last Name'' ''Doe'', RichTextEquals ''First Name'' []]),
          PagesUpdate ''abc123''
            [(''Last Name'', Title [''Doe'']), (''Source'', Select ''iOS Contact'')]]))"
proof -
  let ?ids = "\<lparr>organizations = ''orgs'', contacts = ''people''\<rparr>"
  let ?c1 = "\<lparr>firstName = Some ''Jane'', organization = None, lastName = ''Doe'', emails = None,
      addresses = None, phones = None, note_text = None, website = None, jobTitle = None,
      source = ''ios-contact''\<rparr>"
  let ?c2 = "\<lparr>firstName = None, organization = None, lastName = ''Doe'', emails = None,
      addresses = None, phones = None, note_text = None, website = None, jobTitle = None,
      source = ''ios-contact''\<rparr>"
  let ?cl1 = "scripted_client (\<lambda>db. []) ''new-1''"
  let ?cl2 = "scripted_client (\<lambda>db. [''abc123'', ''def456'']) ''new-1''"
  note props = properties_def spread_string_def spread_object_def workEmail_def homeEmail_def
    mainPhone_def workPhone_def mobilePhone_def homePhone_def workAddressData_def
    homeAddressData_def first_where_def
  have p1: "properties ?c1 None =
      [(''Last Name'', Title [''Doe'']), (''First Name'', RichText [''Jane'']),
       (''Source'', Select ''iOS Contact'')]"
    by (simp add: props)
  have p2: "properties ?c2 None =
      [(''Last Name'', Title [''Doe'']), (''Source'', Select ''iOS Contact'')]"
    by (simp add: props)
  have o1: "resolve_organization ?ids ?cl1 (organization ?c1) (0, []) = (Inr None, (0, []))"
    by (simp add: resolve_organization_def)
  have o2: "resolve_organization ?ids ?cl2 (organization ?c2) (0, []) = (Inr None, (0, []))"
    by (simp add: resolve_organization_def)
  have q1: "databases_query ?cl1 (contacts ?ids)
      (And [TitleEquals ''Last Name'' (lastName ?c1),
            RichTextEquals ''First Name'' (case firstName ?c1 of None \<Rightarrow> [] | Some f \<Rightarrow> f)]) 0
      = (Inr [], 0)"
    by (simp add: scripted_client_def)
  have q2: "databases_query ?cl2 (contacts ?ids)
      (And [TitleEquals ''Last Name'' (lastName ?c2),
            RichTextEquals ''First Name'' (case firstName ?c2 of None \<Rightarrow> [] | Some f \<Rightarrow> f)]) 0
      = (Inr (''abc123'' # [''def456'']), 0)"
    by (simp add: scripted_client_def)
  have w1: "pages_create ?cl1 (contacts ?ids) (properties ?c1 None) 0 = (Inr ''new-1'', Suc 0)"
    by (simp add: scripted_client_def)
  have w2: "pages_update ?cl2 ''abc123'' (properties ?c2 None) 0 = (Inr ''abc123'', Suc 0)"
    by (simp add: scripted_client_def)
  note t1 = contact_upsert [OF o1 q1, where new_id = "''new-1''" and ?s3.0 = "Suc 0"
      and rest = "[]"]
  note t2 = contact_upsert [OF o2 q2, where r = "''abc123''" and others = "[''def456'']"
      and ?s3.0 = "Suc 0" and rest = "[]"]
  from t1 w1 have "ios_contact ?ids ?cl1 [?c1] (0, []) =
      (Inr \<lparr>status = 201, body = JsonBody (JObject
              [(''message'', JString ''Successfully created contact''),
               (''pageId'', JString ''new-1''),
               (''firstName'', JString ''Jane''),
               (''lastName'', JString ''Doe'')])\<rparr>,
        (Suc 0,
         [DatabasesQuery ''people''
            (And [TitleEquals ''Last Name'' ''Doe'', RichTextEquals ''First Name'' ''Jane'']),
          PagesCreate ''people'' (properties ?c1 None)]))"
    by (simp add: json_object_def)
  moreover from t2 w2 have "ios_contact ?ids ?cl2 [?c2] (0, []) =
      (Inr \<lparr>status = 200, body = JsonBody (JObject
              [(''message'', JString ''Successfully updated contact''),
               (''lastName'', JString ''Doe''),
               (''pageId'', JString ''abc123'')])\<rparr>,
        (Suc 0,
         [DatabasesQuery ''people''
            (And [TitleEquals ''Last Name'' ''Doe'', RichTextEquals ''First Name'' []]),
          PagesUpdate ''abc123'' (properties ?c2 None)]))"
    by (simp add: json_object_def)
  ultimately show ?thesis
    unfolding p1 p2 by blast
qed

end
